theory Spec2Isabelle
  imports Complex_Main "HOL-Library.Word"
begin

section \<open>JavaScript strings\<close>

text \<open>
  A JavaScript string is a sequence of UTF-16 code units. \<open>length\<close>, \<open>slice\<close>,
  \<open>includes\<close>, \<open>indexOf\<close>, \<open>split\<close> and regular expressions without the \<open>u\<close> flag
  work on code units; the string iterator (\<open>for (const c of ...)\<close>, \<open>new Set(text)\<close>)
  yields code points, each a string of one unit or of a surrogate pair.

  Names of the source that start with an underscore (\<open>_size\<close>, \<open>_position\<close>, ...) are
  written with the prefix \<open>u_\<close> here.
\<close>

type_synonym code_unit = "16 word"
type_synonym jstring = "code_unit list"

definition js :: "string \<Rightarrow> jstring" where
  \<comment> \<open>an ASCII literal of the source as a JavaScript string\<close>
  "js s = map (\<lambda>c. of_nat (of_char c)) s"

definition is_lead_surrogate :: "code_unit \<Rightarrow> bool" where
  "is_lead_surrogate u = (0xD800 \<le> u \<and> u \<le> 0xDBFF)"

definition is_trail_surrogate :: "code_unit \<Rightarrow> bool" where
  "is_trail_surrogate u = (0xDC00 \<le> u \<and> u \<le> 0xDFFF)"

fun code_points :: "jstring \<Rightarrow> jstring list" where
  \<comment> \<open>the string iterator: a lead surrogate followed by a trail surrogate is one element\<close>
  "code_points [] = []"
| "code_points [u] = [[u]]"
| "code_points (u # v # r) =
     (if is_lead_surrogate u \<and> is_trail_surrogate v then [u, v] # code_points r
      else [u] # code_points (v # r))"

definition Set_add :: "'a list \<Rightarrow> 'a \<Rightarrow> 'a list" where
  "Set_add xs x = (if x \<in> set xs then xs else xs @ [x])"

definition new_Set :: "'a list \<Rightarrow> 'a list" where
  \<comment> \<open>\<open>new Set(iterable)\<close>: the distinct elements, in the order of first insertion\<close>
  "new_Set xs = foldl Set_add [] xs"

fun str_less :: "jstring \<Rightarrow> jstring \<Rightarrow> bool" where
  \<comment> \<open>\<open>a < b\<close> on strings: lexicographic on code units\<close>
  "str_less _ [] = False"
| "str_less [] (_ # _) = True"
| "str_less (x # xs) (y # ys) = (x < y \<or> (x = y \<and> str_less xs ys))"

definition str_le :: "jstring \<Rightarrow> jstring \<Rightarrow> bool" where
  \<comment> \<open>\<open>a <= b\<close> on strings is \<open>!(b < a)\<close>\<close>
  "str_le a b = (\<not> str_less b a)"

fun split_loop :: "code_unit \<Rightarrow> jstring \<Rightarrow> jstring \<Rightarrow> jstring list" where
  "split_loop sep cur [] = [cur]"
| "split_loop sep cur (x # xs) =
     (if x = sep then cur # split_loop sep [] xs else split_loop sep (cur @ [x]) xs)"

definition split :: "code_unit \<Rightarrow> jstring \<Rightarrow> jstring list" where
  \<comment> \<open>\<open>text.split(sep)\<close> for a separator of one code unit\<close>
  "split sep s = split_loop sep [] s"

definition slice :: "jstring \<Rightarrow> nat \<Rightarrow> nat \<Rightarrow> jstring" where
  \<comment> \<open>\<open>s.slice(a, b)\<close> for offsets \<open>a, b \<ge> 0\<close>: empty when \<open>b \<le> a\<close>, clipped at the end\<close>
  "slice s a b = take (b - a) (drop a s)"

definition slice_from :: "jstring \<Rightarrow> nat \<Rightarrow> jstring" where
  \<comment> \<open>\<open>s.slice(a)\<close> for an offset \<open>a \<ge> 0\<close>\<close>
  "slice_from s a = drop a s"

definition newline :: code_unit where
  "newline = 0x0A"

section \<open>Geometry and box data\<close>

text \<open>
  JavaScript numbers are modelled as real numbers: the finite values, with exact
  arithmetic. \<open>NaN\<close> and the infinities have no counterpart.
\<close>

record Size =
  width :: real
  height :: real

record ImageProperties = Size +
  v_align :: real

record FontMetrics =
  ascent :: real
  descent :: real
  fm_height :: real  \<comment> \<open>\<open>height\<close> of the source's FontMetrics\<close>
  x_height :: real
  cap_height :: real

datatype hname = Left | Center | Right
datatype vname = Top | VCenter | Baseline | Bottom
datatype x_anchor = XNum real | XName hname
datatype y_anchor = YNum real | YName vname

record Position =
  sx :: real
  sy :: real
  x_anchor :: "x_anchor option"
  y_anchor :: "y_anchor option"

datatype TextHeightMetric = X | Cap | Ascent | X_descent | Cap_descent | Ascent_descent

datatype box_align = AlignAuto | AlignLeft | AlignCenter | AlignRight | AlignJustify

text \<open>
  The fields of the class \<open>GraphicsBox\<close> with their initial values. The optional
  \<open>width\<close> and \<open>height\<close> (a value with unit \<open>%\<close>) are \<open>box_width\<close> and \<open>box_height\<close>;
  \<open>u_angle\<close> has no initialiser and the code tests it, so it is optional.
\<close>

record GraphicsBox =
  u_position :: Position
  u_angle :: "real option"
  box_width :: "real option"
  box_height :: "real option"
  font_size_scale :: real
  text_height_metric :: "TextHeightMetric option"
  align :: box_align
  u_base_font_size :: real
  u_x_anchor :: hname
  u_y_anchor :: vname

definition new_GraphicsBox :: GraphicsBox where
  "new_GraphicsBox =
     \<lparr>u_position = \<lparr>sx = 0, sy = 0, x_anchor = None, y_anchor = None\<rparr>,
      u_angle = None, box_width = None, box_height = None, font_size_scale = 1,
      text_height_metric = None, align = AlignLeft, u_base_font_size = 13,
      u_x_anchor = Left, u_y_anchor = VCenter\<rparr>"

text \<open>
  \<open>TextBox\<close> extends \<open>GraphicsBox\<close>. Its fields \<open>color\<close>, \<open>font\<close> and \<open>line_height\<close> are
  declared without initialiser and assigned by the \<open>visuals\<close> setter; the constructor
  leaves them at an unspecified value, of which nothing is proved.
\<close>

record TextBox = GraphicsBox +
  text_s :: jstring  \<comment> \<open>the field \<open>text\<close>\<close>
  color :: jstring
  font :: jstring
  line_height :: real
  u_visual_align :: hname

definition new_TextBox :: "jstring \<Rightarrow> TextBox" where
  "new_TextBox t =
     GraphicsBox.extend new_GraphicsBox
       (TextBox.fields t undefined undefined undefined Left)"

type_synonym CanvasImage = nat

text \<open>
  \<open>ImageTextBox\<close> extends \<open>TextBox\<close>; \<open>image\<close> starts as \<open>null\<close>. The callback
  \<open>load_image\<close> it is constructed with is always the \<open>load_image\<close> of the view that
  owns the box, so the model does not store it.
\<close>

record ImageTextBox = TextBox +
  image :: "CanvasImage option"
  image_properties :: ImageProperties

definition new_ImageTextBox :: "jstring \<Rightarrow> ImageTextBox" where
  "new_ImageTextBox t = TextBox.extend (new_TextBox t) (ImageTextBox.fields None undefined)"

datatype box =
    Text TextBox
  | Image ImageTextBox
  | Expo GraphicsBox box box  \<comment> \<open>\<open>BaseExpo\<close>: own fields, \<open>base\<close>, \<open>expo\<close>\<close>
  | Container GraphicsBox "box list"  \<comment> \<open>\<open>GraphicsContainer\<close>: own fields, \<open>items\<close>\<close>

text \<open>The errors that a call can end with: a thrown \<open>TypeError\<close>, a rejected decoding.\<close>

datatype error = TypeError | DecodeRejected

text \<open>
  The services the code imports from other modules and the built-in conversions: font
  measurement, CSS parsing (\<open>parse_css_length\<close> is handed whatever the map of rules
  holds, also \<open>undefined\<close>, and may throw), \<open>parseFloat\<close>, colour conversion and the
  formatting of a number in a template literal.
\<close>

record env =
  font_metrics :: "jstring \<Rightarrow> FontMetrics"
  text_width :: "jstring \<Rightarrow> jstring \<Rightarrow> real"
  parse_css_font_size :: "jstring \<Rightarrow> (real \<times> jstring) option"
  parse_css_length :: "jstring option \<Rightarrow> error + (real \<times> jstring) option"
  parseFloat :: "jstring \<Rightarrow> real"
  color2css :: "jstring \<Rightarrow> real \<Rightarrow> jstring"
  color2hexrgb :: "jstring \<Rightarrow> jstring"
  color2rgba :: "jstring \<Rightarrow> nat \<times> nat \<times> nat \<times> real"
  number_to_string :: "real \<Rightarrow> jstring"

section \<open>TextBox\<close>

fun is_math_like_loop :: "jstring list \<Rightarrow> bool" where
  \<comment> \<open>the \<open>for\<close> loop of \<open>is_math_like\<close>: \<open>continue\<close> on a digit or one of \<open>, . + - \<minus> e\<close>\<close>
  "is_math_like_loop [] = True"
| "is_math_like_loop (c # cs) =
     (if str_le (js ''0'') c \<and> str_le c (js ''9'') then is_math_like_loop cs
      else if c = js '','' \<or> c = js ''.'' \<or> c = js ''+'' \<or> c = js ''-''
              \<or> c = [0x2212] \<or> c = js ''e'' then is_math_like_loop cs
      else False)"

definition is_math_like :: "jstring \<Rightarrow> bool" where
  "is_math_like t = is_math_like_loop (new_Set (code_points t))"

definition TextBox_infer_text_height :: "jstring \<Rightarrow> TextHeightMetric" where
  \<comment> \<open>\<open>TextBox.infer_text_height\<close>, which reads the field \<open>text\<close> only\<close>
  "TextBox_infer_text_height t =
     (if newline \<in> set t then Ascent_descent
      else if is_math_like t then Cap else Ascent_descent)"

fun infer_text_height :: "box \<Rightarrow> TextHeightMetric" where
  "infer_text_height (Text tb) = TextBox_infer_text_height (text_s tb)"
| "infer_text_height (Image ib) = TextBox_infer_text_height (text_s ib)"
| "infer_text_height (Expo g b e) = infer_text_height b"
| "infer_text_height (Container g items) = Ascent_descent"

definition u_text_line :: "TextHeightMetric option \<Rightarrow> jstring \<Rightarrow> FontMetrics \<Rightarrow> real \<times> real \<times> real" where
  \<comment> \<open>\<open>TextBox._text_line\<close>: height, ascent and descent of one line\<close>
  "u_text_line thm t fmetrics =
     (let metric = (case thm of Some m \<Rightarrow> m | None \<Rightarrow> TextBox_infer_text_height t);
          asc = (case metric of
                   X \<Rightarrow> x_height fmetrics | X_descent \<Rightarrow> x_height fmetrics
                 | Cap \<Rightarrow> cap_height fmetrics | Cap_descent \<Rightarrow> cap_height fmetrics
                 | Ascent \<Rightarrow> ascent fmetrics | Ascent_descent \<Rightarrow> ascent fmetrics);
          desc = (case metric of
                   X \<Rightarrow> 0 | Cap \<Rightarrow> 0 | Ascent \<Rightarrow> 0
                 | X_descent \<Rightarrow> descent fmetrics | Cap_descent \<Rightarrow> descent fmetrics
                 | Ascent_descent \<Rightarrow> descent fmetrics)
      in (asc + desc, asc, desc))"

definition nlines :: "jstring \<Rightarrow> nat" where
  "nlines t = length (split newline t)"

fun array_max :: "real list \<Rightarrow> real" where
  \<comment> \<open>Modelled from the spec: \<open>max\<close> of core/util/array is not under src/; the spec has
      "overall width = max line width". It is only applied to the widths of the lines
      of a text, of which there is at least one.\<close>
  "array_max [] = 0"
| "array_max (x # xs) = fold max xs x"

definition scale :: "real option \<Rightarrow> real" where
  \<comment> \<open>\<open>this.width?.unit == "%" ? this.width.value : 1\<close>\<close>
  "scale v = (case v of Some x \<Rightarrow> x | None \<Rightarrow> 1)"

definition TextBox_u_size :: "env \<Rightarrow> 'a TextBox_scheme \<Rightarrow> Size" where
  \<comment> \<open>\<open>TextBox._size\<close> (without the font metrics it returns along with the size)\<close>
  "TextBox_u_size E tb =
     (let fmetrics = font_metrics E (font tb);
          line_spacing = (line_height tb - 1) * fm_height fmetrics;
          empty = (text_s tb = []);
          lines = split newline (text_s tb);
          n = length lines;
          widths = map (\<lambda>line. text_width E line (font tb)) lines;
          text_line_height = fst (u_text_line (text_height_metric tb) (text_s tb) fmetrics);
          text_height = text_line_height * real n;
          w_scale = scale (box_width tb);
          h_scale = scale (box_height tb)
      in \<lparr>width = array_max widths * w_scale,
          height = (if empty then 0 else (text_height + line_spacing * (real n - 1)) * h_scale)\<rparr>)"

section \<open>ImageTextBox, BaseExpo and GraphicsContainer: sizes\<close>

definition ImageTextBox_u_size :: "env \<Rightarrow> ImageTextBox \<Rightarrow> Size" where
  \<comment> \<open>\<open>ImageTextBox._size\<close> (without the font metrics it returns along with the size)\<close>
  "ImageTextBox_u_size E ib =
     (case image ib of
        None \<Rightarrow> \<lparr>width = 0, height = 0\<rparr>
      | Some img \<Rightarrow>
          (let w = width (image_properties ib);
               h = height (image_properties ib);
               metrics = font_metrics E (font ib);
               h1 = (if h < fm_height metrics then fm_height metrics else h);
               w_scale = scale (box_width ib);
               h_scale = scale (box_height ib)
           in \<lparr>width = w * w_scale, height = h1 * h_scale\<rparr>))"

definition rotated :: "real option \<Rightarrow> Size \<Rightarrow> Size" where
  \<comment> \<open>\<open>GraphicsBox.size\<close> after it has read \<open>this._size()\<close>: \<open>!angle\<close> holds for an angle
      that is undefined or 0\<close>
  "rotated angle sz =
     (case angle of
        None \<Rightarrow> \<lparr>width = width sz, height = height sz\<rparr>
      | Some a \<Rightarrow>
          if a = 0 then \<lparr>width = width sz, height = height sz\<rparr>
          else (let c = cos \<bar>a\<bar>; s = sin \<bar>a\<bar>
                in \<lparr>width = \<bar>width sz * c + height sz * s\<bar>,
                    height = \<bar>width sz * s + height sz * c\<bar>\<rparr>))"

fun GraphicsBox_of :: "box \<Rightarrow> GraphicsBox" where
  \<comment> \<open>the \<open>GraphicsBox\<close> part of a box\<close>
  "GraphicsBox_of (Text tb) = GraphicsBox.truncate tb"
| "GraphicsBox_of (Image ib) = GraphicsBox.truncate ib"
| "GraphicsBox_of (Expo g b e) = g"
| "GraphicsBox_of (Container g items) = g"

fun items_of :: "box \<Rightarrow> box list" where
  \<comment> \<open>the items of a container\<close>
  "items_of (Container g items) = items"
| "items_of b = []"

definition angle :: "box \<Rightarrow> real option" where
  "angle b = u_angle (GraphicsBox_of b)"

definition position :: "box \<Rightarrow> Position" where
  "position b = u_position (GraphicsBox_of b)"

fun u_shift_scale :: "env \<Rightarrow> box \<Rightarrow> real" where
  \<comment> \<open>\<open>BaseExpo._shift_scale\<close>, of the base; an \<open>ImageTextBox\<close> is an instance of \<open>TextBox\<close>\<close>
  "u_shift_scale E (Text tb) =
     (if nlines (text_s tb) = 1
      then x_height (font_metrics E (font tb)) / cap_height (font_metrics E (font tb))
      else 2 / 3)"
| "u_shift_scale E (Image ib) =
     (if nlines (text_s ib) = 1
      then x_height (font_metrics E (font ib)) / cap_height (font_metrics E (font ib))
      else 2 / 3)"
| "u_shift_scale E (Expo g b e) = 2 / 3"
| "u_shift_scale E (Container g items) = 2 / 3"

fun u_size :: "env \<Rightarrow> box \<Rightarrow> Size" where
  \<comment> \<open>\<open>_size\<close> of each class; \<open>BaseExpo._size\<close> reads \<open>size()\<close> of its children, the
      container \<open>_size()\<close> of its items\<close>
  "u_size E (Text tb) = TextBox_u_size E tb"
| "u_size E (Image ib) = ImageTextBox_u_size E ib"
| "u_size E (Expo g b e) =
     (let bs = rotated (angle b) (u_size E b);
          es = rotated (angle e) (u_size E e)
      in \<lparr>width = width bs + width es,
          height = max (height bs) (u_shift_scale E b * height bs + height es)\<rparr>)"
| "u_size E (Container g items) =
     foldl (\<lambda>acc item. \<lparr>width = width acc + width (u_size E item),
                         height = max (height acc) (height (u_size E item))\<rparr>)
       \<lparr>width = 0, height = 0\<rparr> items"

definition size_of :: "env \<Rightarrow> box \<Rightarrow> Size" where
  \<comment> \<open>\<open>GraphicsBox.size\<close>\<close>
  "size_of E b = rotated (angle b) (u_size E b)"

section \<open>The position setters\<close>

definition u_computed_position :: "GraphicsBox \<Rightarrow> Size \<Rightarrow> real \<times> real" where
  \<comment> \<open>\<open>GraphicsContainer._computed_position\<close>, from the fields and \<open>this._size()\<close>\<close>
  "u_computed_position g sz =
     (let p = u_position g;
          xa = (case x_anchor p of Some a \<Rightarrow> a | None \<Rightarrow> XName (u_x_anchor g));
          ya = (case y_anchor p of Some a \<Rightarrow> a | None \<Rightarrow> YName (u_y_anchor g));
          x = sx p - (case xa of
                        XNum f \<Rightarrow> f * width sz
                      | XName Left \<Rightarrow> 0
                      | XName Center \<Rightarrow> 0.5 * width sz
                      | XName Right \<Rightarrow> width sz);
          y = sy p - (case ya of
                        YNum f \<Rightarrow> f * height sz
                      | YName Top \<Rightarrow> 0
                      | YName VCenter \<Rightarrow> 0.5 * height sz
                      | YName Bottom \<Rightarrow> height sz
                      | YName Baseline \<Rightarrow> 0.5 * height sz)
      in (x, y))"

definition position_measure ::
  "(env \<times> box \<times> Position) + (env \<times> GraphicsBox \<times> box list \<times> Position \<times> nat) \<Rightarrow> nat \<times> nat" where
  \<comment> \<open>the order in which the position setters terminate: the size of the box, then the
      number of items still to place\<close>
  "position_measure x =
     (case x of
        Inl (E, b, p) \<Rightarrow> (size b, 0)
      | Inr (E, g, items, pos, n) \<Rightarrow> (size_list size items, Suc (length items - n)))"

lemma size_nth_less: "n < length xs \<Longrightarrow> size (xs ! n) < size_list size (xs :: box list)"
proof (induction xs arbitrary: n)
  case Nil
  then show ?case by simp
next
  case (Cons a xs)
  then show ?case by (cases n) (auto simp: less_Suc_eq trans_less_add2)
qed

function set_position :: "env \<Rightarrow> box \<Rightarrow> Position \<Rightarrow> error + box"
  and compute_items_positions :: "env \<Rightarrow> GraphicsBox \<Rightarrow> box list \<Rightarrow> Position \<Rightarrow> nat \<Rightarrow> error + box list"
where
  "set_position E (Text tb) p = Inr (Text (tb\<lparr>u_position := p\<rparr>))"
| "set_position E (Image ib) p = Inr (Image (ib\<lparr>u_position := p\<rparr>))"
| "set_position E (Expo g b e) p =
     (let bs = rotated (angle b) (u_size E b);
          es = rotated (angle e) (u_size E e);
          shift = u_shift_scale E b * height bs;
          h = max (height bs) (shift + height es)
      in case set_position E b \<lparr>sx = 0, sy = h, x_anchor = Some (XName Left),
                                 y_anchor = Some (YName Bottom)\<rparr> of
           Inl err \<Rightarrow> Inl err
         | Inr b1 \<Rightarrow>
             (case set_position E e \<lparr>sx = width bs, sy = shift, x_anchor = Some (XName Left),
                                     y_anchor = Some (YName Bottom)\<rparr> of
                Inl err \<Rightarrow> Inl err
              | Inr e1 \<Rightarrow> Inr (Expo (g\<lparr>u_position := p\<rparr>) b1 e1)))"
| "set_position E (Container g items) p =
     (let g1 = g\<lparr>u_position := p\<rparr>;
          x = fst (u_computed_position g1 (u_size E (Container g1 items)))
      in case compute_items_positions E g1 items (p\<lparr>sx := x\<rparr>) 0 of
           Inl err \<Rightarrow> Inl err
         | Inr items1 \<Rightarrow> Inr (Container g1 items1))"
| "compute_items_positions E g items pos n =
     (if length items \<le> n then Inl TypeError
      else
        (let container_height = height (u_size E (Container g items));
             item_size = u_size E (items ! n);
             ya = (case y_anchor pos of Some a \<Rightarrow> a | None \<Rightarrow> YName VCenter);
             container_space = (if ya = YName Top then height item_size - container_height else 0);
             item_sy = sy pos - container_space
         in if n = 0 then
              (case set_position E (items ! n)
                      ((u_position g)\<lparr>sx := sx (u_position g) - width item_size\<rparr>) of
                 Inl err \<Rightarrow> Inl err
               | Inr ignored \<Rightarrow>
                   (case set_position E (items ! n)
                           (pos\<lparr>sy := item_sy, x_anchor := Some (XName Left), y_anchor := Some ya\<rparr>) of
                      Inl err \<Rightarrow> Inl err
                    | Inr item1 \<Rightarrow>
                        if Suc n < length items then
                          (case compute_items_positions E g items pos (Suc n) of
                             Inl err \<Rightarrow> Inl err
                           | Inr rest \<Rightarrow> Inr (item1 # rest))
                        else Inr [item1]))
            else
              (let pos1 = pos\<lparr>sx := sx pos + width (u_size E (items ! (n - 1)))\<rparr>
               in case set_position E (items ! n)
                         (pos1\<lparr>sy := item_sy, x_anchor := Some (XName Left), y_anchor := Some ya\<rparr>) of
                    Inl err \<Rightarrow> Inl err
                  | Inr item1 \<Rightarrow>
                      if \<not> Suc n < length items then Inr [item1]
                      else
                        (case compute_items_positions E g items pos1 (Suc n) of
                           Inl err \<Rightarrow> Inl err
                         | Inr rest \<Rightarrow> Inr (item1 # rest)))))"
  by pat_completeness auto
termination
  apply (relation "inv_image (less_than <*lex*> less_than) position_measure")
  apply (auto simp: position_measure_def size_nth_less)
  done

section \<open>The visuals setters\<close>

datatype TextBaseline = BTop | BMiddle | BBottom | BAlphabetic | BHanging | BIdeographic

record text_visuals =
  vis_color :: jstring
  vis_alpha :: real
  vis_font_style :: jstring
  vis_font_size :: jstring
  vis_font :: jstring
  vis_line_height :: real
  vis_align :: hname
  vis_baseline :: TextBaseline

definition TextBox_set_visuals :: "env \<Rightarrow> text_visuals \<Rightarrow> 'a TextBox_scheme \<Rightarrow> 'a TextBox_scheme" where
  "TextBox_set_visuals E v tb =
     (let sz = (case parse_css_font_size E (vis_font_size v) of
                  None \<Rightarrow> vis_font_size v
                | Some (val, unit) \<Rightarrow>
                    (let val1 = val * font_size_scale tb
                     in if unit = js ''em'' \<and> u_base_font_size tb \<noteq> 0
                        then number_to_string E (val1 * u_base_font_size tb) @ js ''px''
                        else number_to_string E val1 @ unit));
          fnt = vis_font_style v @ js '' '' @ sz @ js '' '' @ vis_font v
      in tb\<lparr>font := fnt,
             color := color2css E (vis_color v) (vis_alpha v),
             line_height := vis_line_height v,
             u_visual_align := vis_align v,
             u_x_anchor := vis_align v,
             u_y_anchor := (case vis_baseline v of
                              BTop \<Rightarrow> Top | BMiddle \<Rightarrow> VCenter | BBottom \<Rightarrow> Bottom
                            | BAlphabetic \<Rightarrow> Baseline | BHanging \<Rightarrow> Baseline
                            | BIdeographic \<Rightarrow> Baseline)\<rparr>)"

fun set_font_size_scale :: "real \<Rightarrow> box \<Rightarrow> box" where
  "set_font_size_scale s (Text tb) = Text (tb\<lparr>font_size_scale := s\<rparr>)"
| "set_font_size_scale s (Image ib) = Image (ib\<lparr>font_size_scale := s\<rparr>)"
| "set_font_size_scale s (Expo g b e) = Expo (g\<lparr>font_size_scale := s\<rparr>) b e"
| "set_font_size_scale s (Container g items) = Container (g\<lparr>font_size_scale := s\<rparr>) items"

fun set_text_height_metric :: "TextHeightMetric option \<Rightarrow> box \<Rightarrow> box" where
  "set_text_height_metric m (Text tb) = Text (tb\<lparr>text_height_metric := m\<rparr>)"
| "set_text_height_metric m (Image ib) = Image (ib\<lparr>text_height_metric := m\<rparr>)"
| "set_text_height_metric m (Expo g b e) = Expo (g\<lparr>text_height_metric := m\<rparr>) b e"
| "set_text_height_metric m (Container g items) = Container (g\<lparr>text_height_metric := m\<rparr>) items"

fun metric_map :: "TextHeightMetric \<Rightarrow> nat" where
  "metric_map X = 0"
| "metric_map Cap = 1"
| "metric_map Ascent = 2"
| "metric_map X_descent = 3"
| "metric_map Cap_descent = 4"
| "metric_map Ascent_descent = 5"

fun max_by_loop :: "'a \<Rightarrow> 'a list \<Rightarrow> ('a \<Rightarrow> nat) \<Rightarrow> 'a" where
  "max_by_loop best [] key = best"
| "max_by_loop best (x # xs) key =
     (if key x > key best then max_by_loop x xs key else max_by_loop best xs key)"

definition max_by :: "'a list \<Rightarrow> ('a \<Rightarrow> nat) \<Rightarrow> 'a option" where
  \<comment> \<open>Modelled from the spec: \<open>max_by\<close> of core/util/array is not under src/. The spec has
      "ranking ... and picking the maximum rank": an element of the array whose key is
      the greatest. An empty array has no such element.\<close>
  "max_by xs key = (case xs of [] \<Rightarrow> None | x # r \<Rightarrow> Some (max_by_loop x r key))"

lemma size_set_font_size_scale [simp]: "size (set_font_size_scale s b) = size b"
  by (cases b) simp_all

fun set_visuals :: "env \<Rightarrow> text_visuals \<Rightarrow> box \<Rightarrow> box" where
  "set_visuals E v (Text tb) = Text (TextBox_set_visuals E v tb)"
| "set_visuals E v (Image ib) = Image (TextBox_set_visuals E v ib)"
| "set_visuals E v (Expo g b e) =
     Expo g (set_visuals E v b) (set_visuals E v (set_font_size_scale 0.7 e))"
| "set_visuals E v (Container g items) =
     (let items1 = map (set_visuals E v) items;
          common = max_by (map infer_text_height items1) metric_map
      in Container g (map (set_text_height_metric common) items1))"

section \<open>The typesetting provider and the view\<close>

record tex_part =
  start_n :: nat  \<comment> \<open>\<open>part.start.n\<close>\<close>
  end_n :: nat  \<comment> \<open>\<open>part.end.n\<close>\<close>
  math :: jstring

text \<open>
  An SVG element as \<open>load_image\<close> and \<open>get_image_properties\<close> read it: its serialised
  markup and its attributes \<open>height\<close>, \<open>width\<close> and \<open>style\<close>, each of which may be absent.
\<close>

record SVGElement =
  outerHTML :: jstring
  attr_height :: "jstring option"
  attr_width :: "jstring option"
  attr_style :: "jstring option"

record HTMLElement =
  children :: "SVGElement list"

type_synonym macros = "(jstring \<times> jstring) list"

record MathJax =
  find_tex :: "jstring \<Rightarrow> tex_part list"
  tex2svg :: "jstring \<Rightarrow> bool \<times> real \<times> real \<Rightarrow> macros \<Rightarrow> HTMLElement option"
  mathml2svg :: "jstring \<Rightarrow> real \<times> real \<Rightarrow> HTMLElement option"

datatype provider_status = NotStarted | Loading | Ready | Failed

fun parse_loop :: "jstring \<Rightarrow> tex_part list \<Rightarrow> nat \<Rightarrow> box list \<Rightarrow> box list \<times> nat" where
  \<comment> \<open>the \<open>for\<close> loop of \<open>parse_math_parts\<close>, on \<open>last_index\<close> and \<open>parts\<close>\<close>
  "parse_loop t [] last_index parts = (parts, last_index)"
| "parse_loop t (part # rest) last_index parts =
     (let u_text = slice t last_index (start_n part);
          parts1 = (if u_text \<noteq> [] then parts @ [Text (new_TextBox u_text)] else parts);
          parts2 = parts1 @ [Image (new_ImageTextBox (math part))]
      in parse_loop t rest (end_n part) parts2)"

definition parse_math_parts :: "MathJax option \<Rightarrow> jstring \<Rightarrow> box list" where
  "parse_math_parts mathjax t =
     (case mathjax of
        None \<Rightarrow> []
      | Some mj \<Rightarrow>
          (case parse_loop t (find_tex mj t) 0 [] of
             (parts, last_index) \<Rightarrow>
               if last_index < length t then parts @ [Text (new_TextBox (slice_from t last_index))]
               else parts))"

definition new_GraphicsContainer :: "box list \<Rightarrow> box" where
  "new_GraphicsContainer items = Container new_GraphicsBox items"

section \<open>Regular expressions and the styled text\<close>

text \<open>
  The two regular expressions of \<open>MathMLView.styled_text\<close> are sequences of: a literal
  code unit, a class \<open>[^c]\<close>, the lazy \<open>.*?\<close> (with the flag \<open>s\<close>, so that \<open>.\<close> is any
  code unit), the lazy \<open>[^c]*?\<close>, and a greedy optional group \<open>(...)?\<close>. \<open>match_here\<close>
  is the backtracking search at one start position and returns the rest of the string
  after the first match found; a lazy star tries the continuation before it takes
  another code unit, an optional group is tried before it is skipped.
\<close>

datatype re_item =
    Chr code_unit
  | NotChr code_unit
  | LazyDot
  | LazyNotChr code_unit
  | Opt "re_item list"

fun match_here :: "re_item list \<Rightarrow> jstring \<Rightarrow> jstring option" where
  "match_here [] s = Some s"
| "match_here (Chr c # r) s =
     (case s of [] \<Rightarrow> None | x # t \<Rightarrow> if x = c then match_here r t else None)"
| "match_here (NotChr c # r) s =
     (case s of [] \<Rightarrow> None | x # t \<Rightarrow> if x \<noteq> c then match_here r t else None)"
| "match_here (LazyDot # r) s =
     (case match_here r s of
        Some t \<Rightarrow> Some t
      | None \<Rightarrow> (case s of [] \<Rightarrow> None | x # t \<Rightarrow> match_here (LazyDot # r) t))"
| "match_here (LazyNotChr c # r) s =
     (case match_here r s of
        Some t \<Rightarrow> Some t
      | None \<Rightarrow>
          (case s of [] \<Rightarrow> None
           | x # t \<Rightarrow> if x \<noteq> c then match_here (LazyNotChr c # r) t else None))"
| "match_here (Opt g # r) s =
     (case match_here (g @ r) s of Some t \<Rightarrow> Some t | None \<Rightarrow> match_here r s)"

fun match_from :: "re_item list \<Rightarrow> jstring \<Rightarrow> jstring option" where
  \<comment> \<open>\<open>s.match(re)[0]\<close> for a regular expression without the flag \<open>g\<close>: the match at the
      leftmost start position that has one\<close>
  "match_from re s =
     (case match_here re s of
        Some rest \<Rightarrow> Some (take (length s - length rest) s)
      | None \<Rightarrow> (case s of [] \<Rightarrow> None | x # t \<Rightarrow> match_from re t))"

fun indexOf_from :: "jstring \<Rightarrow> jstring \<Rightarrow> nat \<Rightarrow> int" where
  "indexOf_from s pat i =
     (if take (length pat) s = pat then int i
      else (case s of [] \<Rightarrow> - 1 | x # t \<Rightarrow> indexOf_from t pat (Suc i)))"

definition indexOf :: "jstring \<Rightarrow> jstring \<Rightarrow> int" where
  \<comment> \<open>\<open>s.indexOf(pat)\<close>: the first offset at which \<open>pat\<close> occurs, or \<open>-1\<close>\<close>
  "indexOf s pat = indexOf_from s pat 0"

definition is_white_space :: "code_unit \<Rightarrow> bool" where
  \<comment> \<open>the white space and line terminators that \<open>trim\<close> removes\<close>
  "is_white_space u =
     (u \<in> {0x09, 0x0A, 0x0B, 0x0C, 0x0D, 0x20, 0xA0, 0x1680, 0x2028, 0x2029, 0x202F, 0x205F,
            0x3000, 0xFEFF}
      \<or> (0x2000 \<le> u \<and> u \<le> 0x200A))"

definition trim :: "jstring \<Rightarrow> jstring" where
  "trim s = rev (dropWhile is_white_space (rev (dropWhile is_white_space s)))"

definition insert_text_on_position :: "jstring \<Rightarrow> int \<Rightarrow> jstring \<Rightarrow> jstring" where
  \<comment> \<open>Modelled from the spec: \<open>insert_text_on_position\<close> of core/util/string is not under
      src/; the spec has the text inserted at the given offset of the string. The
      offsets that \<open>styled_text\<close> passes are not negative.\<close>
  "insert_text_on_position destiny pos t = take (nat pos) destiny @ t @ drop (nat pos) destiny"

definition math_open :: "re_item list" where
  \<comment> \<open>\<open>/<math(.*?[^?])?>/s\<close>\<close>
  "math_open = map Chr (js ''<math'') @ [Opt [LazyDot, NotChr 0x3F], Chr 0x3E]"

definition math_close :: "re_item list" where
  \<comment> \<open>\<open>/<\/[^>]*?math.*?>/s\<close>\<close>
  "math_close = map Chr (js ''</'') @ [LazyNotChr 0x3E] @ map Chr (js ''math'') @ [LazyDot, Chr 0x3E]"

definition MathML_styled_text :: "env \<Rightarrow> ImageTextBox \<Rightarrow> jstring" where
  "MathML_styled_text E image_box =
     (let styled = trim (text_s image_box)
      in case match_from math_open styled of
           None \<Rightarrow> trim (text_s image_box)
         | Some m0 \<Rightarrow>
             (let styled1 = insert_text_on_position styled
                              (indexOf styled m0 + int (length m0))
                              (js ''<mstyle displaystyle=\"true\" mathcolor=\"''
                                 @ color2hexrgb E (color image_box) @ js ''\">'')
              in case match_from math_close styled1 of
                   None \<Rightarrow> trim (text_s image_box)
                 | Some m1 \<Rightarrow>
                     insert_text_on_position styled1 (indexOf styled1 m1) (js ''</mstyle>'')))"

section \<open>The views and the loading of images\<close>

fun decimal :: "nat \<Rightarrow> jstring" where
  \<comment> \<open>a natural number in a template literal\<close>
  "decimal n = (if n < 10 then [of_nat (48 + n)] else decimal (n div 10) @ [of_nat (48 + n mod 10)])"

declare decimal.simps [simp del]

definition TeX_styled_text :: "env \<Rightarrow> ImageTextBox \<Rightarrow> jstring" where
  "TeX_styled_text E image_box =
     (case color2rgba E (color image_box) of
        (r, g, b, a) \<Rightarrow>
          [0x5C] @ js ''color[RGB]{'' @ decimal r @ js '', '' @ decimal g @ js '', '' @ decimal b
            @ js ''} '' @ text_s image_box)"

datatype view_kind = AsciiView | MathMLView | TeXView

record pending_load =
  p_box :: nat  \<comment> \<open>the \<open>image_box\<close> of the call, as its index among the items\<close>
  p_url :: nat  \<comment> \<open>the URL of the blob\<close>
  p_svg :: SVGElement

text \<open>
  The state that \<open>load_image\<close> reads and writes: the view and its model, the provider
  that all views share, the calls of \<open>load_image\<close> that are suspended at
  \<open>await load_image(url)\<close>, the object URLs, and the calls made on the parent view.
  An \<open>ImageTextBox\<close> is referred to by its index among the items of the container;
  the text of the model does not change here, so the container keeps its items. The
  field \<open>_has_finished\<close> is inherited from a class that is not under src/ and starts
  as \<open>false\<close>.
\<close>

record view =
  kind :: view_kind
  model_text :: jstring
  model_inline :: bool
  model_macros :: macros
  graphics_container :: box
  u_has_finished :: bool
  provider_status :: provider_status
  provider_MathJax :: "MathJax option"
  ready_connections :: "nat list"  \<comment> \<open>the retries connected to \<open>provider.ready\<close>\<close>
  pending :: "pending_load list"
  next_url :: nat
  live_urls :: "nat list"  \<comment> \<open>created by \<open>URL.createObjectURL\<close> and not revoked\<close>
  revoked_urls :: "nat list"
  notified :: nat  \<comment> \<open>calls of \<open>parent.notify_finished_after_paint\<close>\<close>
  layout_requests :: nat  \<comment> \<open>calls of \<open>parent.request_layout\<close>\<close>

definition styled_text :: "env \<Rightarrow> 'a view_scheme \<Rightarrow> ImageTextBox \<Rightarrow> jstring" where
  "styled_text E V image_box =
     (case kind V of
        AsciiView \<Rightarrow> model_text V
      | MathMLView \<Rightarrow> MathML_styled_text E image_box
      | TeXView \<Rightarrow> TeX_styled_text E image_box)"

definition u_process_text :: "env \<Rightarrow> 'a view_scheme \<Rightarrow> ImageTextBox \<Rightarrow> HTMLElement option" where
  "u_process_text E V image_box =
     (case kind V of
        AsciiView \<Rightarrow> None
      | MathMLView \<Rightarrow>
          (case provider_MathJax V of
             None \<Rightarrow> None
           | Some mj \<Rightarrow>
               mathml2svg mj (styled_text E V image_box)
                 (u_base_font_size (GraphicsBox_of (graphics_container V)),
                  x_height (font_metrics E (font image_box))))
      | TeXView \<Rightarrow>
          (case provider_MathJax V of
             None \<Rightarrow> None
           | Some mj \<Rightarrow>
               tex2svg mj (styled_text E V image_box)
                 (\<not> model_inline V, u_base_font_size image_box,
                  x_height (font_metrics E (font image_box)))
                 (model_macros V)))"

definition strip_letters :: "jstring \<Rightarrow> jstring" where
  \<comment> \<open>\<open>replace(/([A-z])/g, "")\<close>: without the code units from \<open>A\<close> to \<open>z\<close>\<close>
  "strip_letters s = filter (\<lambda>c. \<not> (0x41 \<le> c \<and> c \<le> 0x7A)) s"

fun rules_loop :: "jstring list \<Rightarrow> (jstring \<rightharpoonup> jstring) \<Rightarrow> error + (jstring \<rightharpoonup> jstring)" where
  \<comment> \<open>the \<open>forEach\<close> that fills \<open>rulesMap\<close>: a declaration with a rule and no \<open>:\<close> has
      the value \<open>undefined\<close>, whose \<open>trim\<close> throws\<close>
  "rules_loop [] m = Inr m"
| "rules_loop (property # rest) m =
     (case split 0x3A property of
        [] \<Rightarrow> rules_loop rest m
      | rule # vals \<Rightarrow>
          if rule = [] then rules_loop rest m
          else (case vals of
                  [] \<Rightarrow> Inl TypeError
                | val # others \<Rightarrow> rules_loop rest (m(trim rule \<mapsto> trim val))))"

definition get_image_properties :: "env \<Rightarrow> SVGElement \<Rightarrow> FontMetrics \<Rightarrow> error + ImageProperties" where
  "get_image_properties E svg_element fmetrics =
     (let heightEx = parseFloat E (case attr_height svg_element of
                                     Some h \<Rightarrow> strip_letters h | None \<Rightarrow> js ''0'');
          widthEx = parseFloat E (case attr_width svg_element of
                                    Some w \<Rightarrow> strip_letters w | None \<Rightarrow> js ''0'');
          v_align0 = descent fmetrics;
          v_align1 =
            (case attr_style svg_element of
               None \<Rightarrow> Inr v_align0
             | Some style \<Rightarrow>
                 (case rules_loop (split 0x3B style) Map.empty of
                    Inl err \<Rightarrow> Inl err
                  | Inr rulesMap \<Rightarrow>
                      (case parse_css_length E (rulesMap (js ''vertical-align'')) of
                         Inl err \<Rightarrow> Inl err
                       | Inr None \<Rightarrow> Inr v_align0
                       | Inr (Some (val, unit)) \<Rightarrow>
                           if unit = js ''ex'' then Inr (v_align0 + val * x_height fmetrics)
                           else if unit = js ''px'' then Inr (v_align0 + val)
                           else Inr v_align0)))
      in case v_align1 of
           Inl err \<Rightarrow> Inl err
         | Inr v \<Rightarrow>
             Inr \<lparr>width = x_height fmetrics * widthEx,
                  height = x_height fmetrics * heightEx,
                  v_align = v\<rparr>)"

fun image_of :: "box \<Rightarrow> ImageTextBox option" where
  \<comment> \<open>\<open>is_image_box\<close>: the items that have a field \<open>image\<close>\<close>
  "image_of (Image ib) = Some ib"
| "image_of b = None"

definition has_images_loaded :: "'a view_scheme \<Rightarrow> bool" where
  "has_images_loaded V =
     list_all (\<lambda>ib. image ib \<noteq> None) (List.map_filter image_of (items_of (graphics_container V)))"

definition image_box_at :: "'a view_scheme \<Rightarrow> nat \<Rightarrow> ImageTextBox option" where
  "image_box_at V i =
     (if i < length (items_of (graphics_container V)) then image_of (items_of (graphics_container V) ! i)
      else None)"

fun set_item :: "box \<Rightarrow> nat \<Rightarrow> box \<Rightarrow> box" where
  "set_item (Container g items) i b = Container g (items[i := b])"
| "set_item c i b = c"

text \<open>
  \<open>load_image\<close> up to its \<open>await\<close>. The result is the state and the error thrown, if
  any: the call is \<open>async\<close>, so an error rejects its promise and the state stays as it
  is.
\<close>

definition load_image :: "env \<Rightarrow> view \<Rightarrow> nat \<Rightarrow> view \<times> error option" where
  "load_image E V i =
     (if \<not> has_images_loaded V \<and> (provider_status V = NotStarted \<or> provider_status V = Loading)
      then (V\<lparr>ready_connections := ready_connections V @ [i], u_has_finished := False\<rparr>, None)
      else if \<not> u_has_finished V \<and> (provider_status V = Failed \<or> has_images_loaded V)
      then (V\<lparr>u_has_finished := True, notified := notified V + 1\<rparr>, None)
      else
        (case image_box_at V i of
           None \<Rightarrow> (V, None)
         | Some image_box \<Rightarrow>
             (case u_process_text E V image_box of
                None \<Rightarrow> (V\<lparr>u_has_finished := True, notified := notified V + 1\<rparr>, None)
              | Some mathjax_element \<Rightarrow>
                  (case children mathjax_element of
                     [] \<Rightarrow> (V, Some TypeError)
                   | svg_element # others \<Rightarrow>
                       (let url = next_url V
                        in (V\<lparr>next_url := Suc url,
                               live_urls := url # live_urls V,
                               pending := pending V @ [\<lparr>p_box = i, p_url = url, p_svg = svg_element\<rparr>]\<rparr>,
                            None))))))"

datatype decode = Decoded CanvasImage | Rejected

definition settle :: "env \<Rightarrow> view \<Rightarrow> nat \<Rightarrow> decode \<Rightarrow> view \<times> error option" where
  \<comment> \<open>\<open>load_image\<close> from the \<open>await\<close> on, when the decoding of the \<open>k\<close>th suspended call
      settles: the \<open>finally\<close> block, then, unless the decoding was rejected, the rest\<close>
  "settle E V k outcome =
     (if length (pending V) \<le> k then (V, None)
      else
        (let p = pending V ! k;
             V1 = V\<lparr>pending := take k (pending V) @ drop (Suc k) (pending V),
                    live_urls := removeAll (p_url p) (live_urls V),
                    revoked_urls := revoked_urls V @ [p_url p]\<rparr>
         in case outcome of
              Rejected \<Rightarrow> (V1, Some DecodeRejected)
            | Decoded svg_image \<Rightarrow>
                (case image_box_at V1 (p_box p) of
                   None \<Rightarrow> (V1, None)
                 | Some image_box \<Rightarrow>
                     (let image_box1 = image_box\<lparr>image := Some svg_image\<rparr>;
                          V2 = V1\<lparr>graphics_container :=
                                     set_item (graphics_container V1) (p_box p) (Image image_box1)\<rparr>
                      in case get_image_properties E (p_svg p) (font_metrics E (font image_box)) of
                           Inl err \<Rightarrow> (V2, Some err)
                         | Inr properties \<Rightarrow>
                             (let image_box2 = image_box1\<lparr>image_properties := properties\<rparr>;
                                  V3 = V2\<lparr>graphics_container :=
                                             set_item (graphics_container V2) (p_box p) (Image image_box2),
                                           layout_requests := layout_requests V2 + 1\<rparr>
                              in if has_images_loaded V3
                                 then (V3\<lparr>u_has_finished := True, notified := notified V3 + 1\<rparr>, None)
                                 else (V3, None))))))"

definition paint :: "env \<Rightarrow> view \<Rightarrow> nat \<Rightarrow> view" where
  \<comment> \<open>\<open>ImageTextBox.paint\<close> of item \<open>i\<close>: without an image it calls \<open>load_image\<close> and
      drops the promise; with an image it draws, which changes nothing here\<close>
  "paint E V i =
     (case image_box_at V i of
        None \<Rightarrow> V
      | Some image_box \<Rightarrow>
          (case image image_box of None \<Rightarrow> fst (load_image E V i) | Some img \<Rightarrow> V))"

definition Container_paint :: "env \<Rightarrow> view \<Rightarrow> view" where
  \<comment> \<open>\<open>GraphicsContainer.paint\<close> of the container of the view: every item in order; only
      an image box without image changes the state\<close>
  "Container_paint E V =
     foldl (paint E) V [0 ..< length (items_of (graphics_container V))]"

definition provider_ready :: "env \<Rightarrow> view \<Rightarrow> provider_status \<Rightarrow> view" where
  \<comment> \<open>the provider changes its status and emits \<open>ready\<close>: every connected retry runs\<close>
  "provider_ready E V st =
     foldl (\<lambda>W i. fst (load_image E W i)) (V\<lparr>provider_status := st\<rparr>) (ready_connections V)"

datatype event =
    Paint nat
  | PaintAll
  | LoadImage nat
  | Settle nat decode
  | ProviderReady provider_status

fun step :: "env \<Rightarrow> view \<Rightarrow> event \<Rightarrow> view" where
  "step E V (Paint i) = paint E V i"
| "step E V PaintAll = Container_paint E V"
| "step E V (LoadImage i) = fst (load_image E V i)"
| "step E V (Settle k outcome) = fst (settle E V k outcome)"
| "step E V (ProviderReady st) = provider_ready E V st"

definition run :: "env \<Rightarrow> view \<Rightarrow> event list \<Rightarrow> view" where
  "run E V events = foldl (step E) V events"

definition new_view :: "view_kind \<Rightarrow> jstring \<Rightarrow> provider_status \<Rightarrow> MathJax option \<Rightarrow> box list \<Rightarrow> view" where
  \<comment> \<open>a view after \<open>lazy_initialize\<close>, before any call of \<open>load_image\<close>\<close>
  "new_view k t st mj items =
     \<lparr>kind = k, model_text = t, model_inline = False, model_macros = [],
      graphics_container = new_GraphicsContainer items,
      u_has_finished = False, provider_status = st, provider_MathJax = mj,
      ready_connections = [], pending = [], next_url = 0, live_urls = [], revoked_urls = [],
      notified = 0, layout_requests = 0\<rparr>"


section \<open>Notions used in the proofs\<close>

text \<open>The test that the loop of \<open>is_math_like\<close> applies to one element of the set.\<close>

definition math_like_element :: "jstring \<Rightarrow> bool" where
  "math_like_element c =
     ((str_le (js ''0'') c \<and> str_le c (js ''9'')) \<or> c = js '','' \<or> c = js ''.''
      \<or> c = js ''+'' \<or> c = js ''-'' \<or> c = [0x2212] \<or> c = js ''e'')"

definition math_like_unit :: "code_unit \<Rightarrow> bool" where
  "math_like_unit u = ((0x30 \<le> u \<and> u \<le> 0x39) \<or> u \<in> {0x2C, 0x2E, 0x2B, 0x2D, 0x2212, 0x65})"


fun positionable :: "box \<Rightarrow> bool" where
  \<comment> \<open>no container without items in the box: its position setter then completes\<close>
  "positionable (Text tb) = True"
| "positionable (Image ib) = True"
| "positionable (Expo g b e) = (positionable b \<and> positionable e)"
| "positionable (Container g items) = (items \<noteq> [] \<and> list_all positionable items)"

fun single_line_font :: "box \<Rightarrow> jstring option" where
  \<comment> \<open>the font of a base that is an instance of \<open>TextBox\<close> with one line of text\<close>
  "single_line_font (Text tb) = (if nlines (text_s tb) = 1 then Some (font tb) else None)"
| "single_line_font (Image ib) = (if nlines (text_s ib) = 1 then Some (font ib) else None)"
| "single_line_font (Expo g b e) = None"
| "single_line_font (Container g items) = None"

definition urls_accounted :: "view \<Rightarrow> bool" where
  \<comment> \<open>the object URLs that have not been revoked are those of the suspended calls, each
      of which has a URL of its own\<close>
  "urls_accounted V =
     (set (live_urls V) = p_url ` set (pending V)
      \<and> distinct (map p_url (pending V))
      \<and> (\<forall>p\<in>set (pending V). p_url p < next_url V))"

definition in_flight :: "view \<Rightarrow> nat \<Rightarrow> nat" where
  \<comment> \<open>the number of conversions of item \<open>i\<close> that have started and not settled\<close>
  "in_flight V i = length (filter (\<lambda>p. p_box p = i) (pending V))"

fun unpositioned :: "box \<Rightarrow> box" where
  \<comment> \<open>a box with every position in it reset\<close>
  "unpositioned (Text tb) = Text (tb\<lparr>u_position := u_position new_GraphicsBox\<rparr>)"
| "unpositioned (Image ib) = Image (ib\<lparr>u_position := u_position new_GraphicsBox\<rparr>)"
| "unpositioned (Expo g b e) =
     Expo (g\<lparr>u_position := u_position new_GraphicsBox\<rparr>) (unpositioned b) (unpositioned e)"
| "unpositioned (Container g items) =
     Container (g\<lparr>u_position := u_position new_GraphicsBox\<rparr>) (map unpositioned items)"

section \<open>Example values\<close>

text \<open>
  A measurement service and some boxes to evaluate the definitions on: every character
  is 7 wide; the font \<open>8px sans\<close> has ascent 8, descent 2, x-height 5 and cap height 8,
  every other font ascent 10, descent 2, x-height 6 and cap height 10.
\<close>

definition example_env :: env where
  "example_env =
     \<lparr>font_metrics = (\<lambda>f. if f = js ''8px sans''
                            then \<lparr>ascent = 8, descent = 2, fm_height = 10, x_height = 5, cap_height = 8\<rparr>
                            else \<lparr>ascent = 10, descent = 2, fm_height = 12, x_height = 6, cap_height = 10\<rparr>),
      text_width = (\<lambda>t f. 7 * real (length t)),
      parse_css_font_size = (\<lambda>s. None),
      parse_css_length = (\<lambda>s. case s of
                                 None \<Rightarrow> Inl TypeError
                               | Some l \<Rightarrow> if l = js ''-0.5ex'' then Inr (Some (- 1 / 2, js ''ex''))
                                           else Inr None),
      parseFloat = (\<lambda>s. if s = js ''2'' then 2 else if s = js ''3'' then 3 else 0),
      color2css = (\<lambda>c a. c),
      color2hexrgb = (\<lambda>c. c),
      color2rgba = (\<lambda>c. (255, 0, 0, 1)),
      number_to_string = (\<lambda>x. [])\<rparr>"

definition example_TextBox :: "jstring \<Rightarrow> TextBox" where
  \<comment> \<open>a text box after its font and line height have been assigned\<close>
  "example_TextBox t = (new_TextBox t)\<lparr>font := js ''10px sans'', line_height := 1\<rparr>"

definition example_visuals :: text_visuals where
  "example_visuals =
     \<lparr>vis_color = js ''#ff0000'', vis_alpha = 1, vis_font_style = js ''normal'',
      vis_font_size = js ''10px'', vis_font = js ''sans'', vis_line_height = 1,
      vis_align = Left, vis_baseline = BBottom\<rparr>"

definition example_ImageTextBox :: "jstring \<Rightarrow> ImageTextBox" where
  \<comment> \<open>an image box without image, after its font and colour have been assigned\<close>
  "example_ImageTextBox t =
     (new_ImageTextBox t)\<lparr>font := js ''10px sans'', color := js ''#ff0000'', line_height := 1\<rparr>"

definition example_svg :: SVGElement where
  "example_svg = \<lparr>outerHTML = js ''<svg></svg>'', attr_height = Some (js ''2ex''),
                   attr_width = Some (js ''3ex''),
                   attr_style = Some (js ''vertical-align: -0.5ex;'')\<rparr>"

definition example_MathJax :: MathJax where
  \<comment> \<open>a provider that finds the span \<open>mc^2\<close> of the text \<open>E=$mc^2$\<close>, no span in any other
      text, and converts every source to an element with one SVG child\<close>
  "example_MathJax =
     \<lparr>find_tex = (\<lambda>t. if t = js ''E=$mc^2$'' then [\<lparr>start_n = 2, end_n = 8, math = js ''mc^2''\<rparr>]
                       else []),
      tex2svg = (\<lambda>source options ms. Some \<lparr>children = [example_svg]\<rparr>),
      mathml2svg = (\<lambda>source options. Some \<lparr>children = [example_svg]\<rparr>)\<rparr>"

definition example_view :: "provider_status \<Rightarrow> MathJax option \<Rightarrow> view" where
  \<comment> \<open>a TeX view of the text \<open>$x$\<close>, whose container holds one image box\<close>
  "example_view st mj =
     new_view TeXView (js ''$x$'') st mj [Image (example_ImageTextBox (js ''x''))]"

section \<open>Properties of the text boxes\<close>

lemma js_literals:
  "js ''0'' = [0x30]" "js ''9'' = [0x39]" "js '','' = [0x2C]" "js ''.'' = [0x2E]"
  "js ''+'' = [0x2B]" "js ''-'' = [0x2D]" "js ''e'' = [0x65]"
  by (simp_all add: js_def)

lemma text_s_new_TextBox: "text_s (new_TextBox t) = t"
  by (simp add: new_TextBox_def TextBox.defs GraphicsBox.defs)

lemma text_s_example_TextBox: "text_s (example_TextBox t) = t"
  by (simp add: example_TextBox_def text_s_new_TextBox)

lemma set_foldl_Set_add: "set (foldl Set_add acc xs) = set acc \<union> set xs"
  by (induction xs arbitrary: acc) (auto simp: Set_add_def)

lemma set_new_Set: "set (new_Set xs) = set xs"
  by (simp add: new_Set_def set_foldl_Set_add)

lemma is_math_like_loop_all: "is_math_like_loop cs = (\<forall>c\<in>set cs. math_like_element c)"
  by (induction cs) (auto simp: math_like_element_def)

lemma math_like_element_single: "math_like_element [u] = math_like_unit u"
  by (auto simp: math_like_element_def math_like_unit_def js_literals str_le_def)

lemma math_like_element_pair: "is_lead_surrogate u \<Longrightarrow> \<not> math_like_element [u, v]"
  by (auto simp: math_like_element_def js_literals str_le_def is_lead_surrogate_def
      word_le_nat_alt word_less_nat_alt)

lemma lead_surrogate_not_math_like: "is_lead_surrogate u \<Longrightarrow> \<not> math_like_unit u"
  by (auto simp: math_like_unit_def is_lead_surrogate_def word_le_nat_alt)

lemma code_points_math_like:
  "(\<forall>c\<in>set (code_points t). math_like_element c) = (\<forall>u\<in>set t. math_like_unit u)"
  by (induction t rule: code_points.induct)
    (auto simp: math_like_element_single math_like_element_pair lead_surrogate_not_math_like)

lemma is_math_like_units: "is_math_like t = (\<forall>u\<in>set t. math_like_unit u)"
  by (simp add: is_math_like_def is_math_like_loop_all set_new_Set code_points_math_like)

text \<open>
  C7. \<open>TextBox.infer_text_height\<close> returns \<open>ascent_descent\<close> for a text that contains a
  newline, \<open>cap\<close> for a text of one line all of whose code units are digits (\<open>0x30\<close> to
  \<open>0x39\<close>) or among \<open>, . + - e\<close> and the minus sign U+2212, and \<open>ascent_descent\<close> for
  every other text of one line.
\<close>

theorem TextBox_infer_text_height_cases:
  "infer_text_height (Text tb) =
     (if newline \<in> set (text_s tb) then Ascent_descent
      else if (\<forall>u\<in>set (text_s tb).
                 (0x30 \<le> u \<and> u \<le> 0x39) \<or> u \<in> set (js '',.+-e'') \<or> u = 0x2212)
      then Cap else Ascent_descent)"
proof -
  have "math_like_unit u = ((0x30 \<le> u \<and> u \<le> 0x39) \<or> u \<in> set (js '',.+-e'') \<or> u = 0x2212)" for u
    by (auto simp: math_like_unit_def js_def)
  then show ?thesis
    by (simp add: TextBox_infer_text_height_def is_math_like_units)
qed

theorem TextBox_infer_text_height_cases_witness:
  "infer_text_height (Text (example_TextBox (js ''-1.5e+3'' @ [0x2212] @ js ''7,0''))) = Cap
   \<and> infer_text_height (Text (example_TextBox (js ''x = 1''))) = Ascent_descent
   \<and> infer_text_height (Text (example_TextBox (js ''1'' @ [newline] @ js ''2''))) = Ascent_descent"
  using TextBox_infer_text_height_cases [of "example_TextBox (js ''-1.5e+3'' @ [0x2212] @ js ''7,0'')"]
    TextBox_infer_text_height_cases [of "example_TextBox (js ''x = 1'')"]
    TextBox_infer_text_height_cases [of "example_TextBox (js ''1'' @ [newline] @ js ''2'')"]
  by (simp add: text_s_example_TextBox js_def newline_def)

text \<open>
  C10. For a \<open>TextBox\<close> whose text is the empty string, \<open>infer_text_height\<close> returns
  \<open>cap\<close>: the loop of \<open>is_math_like\<close> runs over no character. \<open>_size\<close> reports the
  height 0 for it.
\<close>

theorem empty_TextBox_cap_and_height:
  "text_s tb = [] \<Longrightarrow>
     infer_text_height (Text tb) = Cap \<and> height (u_size E (Text tb)) = 0"
  by (simp add: TextBox_infer_text_height_def is_math_like_def new_Set_def newline_def
      TextBox_u_size_def Let_def)

theorem empty_TextBox_cap_and_height_witness:
  "text_s (example_TextBox []) = []
   \<and> infer_text_height (Text (example_TextBox [])) = Cap
   \<and> height (u_size example_env (Text (example_TextBox []))) = 0"
  using empty_TextBox_cap_and_height [of "example_TextBox []" example_env]
  by (simp add: text_s_example_TextBox)


section \<open>The size of a container\<close>

lemma foldl_Container_size:
  "foldl (\<lambda>acc item. \<lparr>width = width acc + width (f item), height = max (height acc) (height (f item))\<rparr>) a items
   = \<lparr>width = width a + sum_list (map (\<lambda>i. width (f i)) items),
      height = foldl max (height a) (map (\<lambda>i. height (f i)) items)\<rparr>"
  by (induction items arbitrary: a) (simp_all add: add.assoc)

lemma foldl_max_Max: "foldl max (a::real) xs = Max (insert a (set xs))"
proof (induction xs arbitrary: a)
  case Nil
  then show ?case by simp
next
  case (Cons x xs)
  have "Max (insert (max a x) (set xs)) = Max (insert a (insert x (set xs)))"
    by (cases "set xs = {}") (simp_all add: max.assoc)
  with Cons show ?case by simp
qed

text \<open>
  C4 (amended). \<open>GraphicsContainer._size\<close> returns as width the sum of the widths of the
  items and as height the greatest of 0 and the heights of the items: the loop starts
  from \<open>height = 0\<close>. The height is the greatest height of an item whenever some item
  has a height that is not negative.
\<close>

theorem Container_u_size:
  "width (u_size E (Container g items)) = sum_list (map (\<lambda>i. width (u_size E i)) items)
   \<and> height (u_size E (Container g items)) = Max (insert 0 (set (map (\<lambda>i. height (u_size E i)) items)))
   \<and> ((\<exists>i\<in>set items. 0 \<le> height (u_size E i)) \<longrightarrow>
        height (u_size E (Container g items)) = Max (set (map (\<lambda>i. height (u_size E i)) items)))"
proof -
  let ?hs = "map (\<lambda>i. height (u_size E i)) items"
  have w: "width (u_size E (Container g items)) = sum_list (map (\<lambda>i. width (u_size E i)) items)"
    by (simp add: foldl_Container_size)
  have h: "height (u_size E (Container g items)) = Max (insert 0 (set ?hs))"
    by (simp add: foldl_Container_size foldl_max_Max)
  have "Max (insert 0 (set ?hs)) = Max (set ?hs)" if "\<exists>i\<in>set items. 0 \<le> height (u_size E i)"
  proof -
    from that obtain i where i: "i \<in> set items" "0 \<le> height (u_size E i)" by blast
    then have ne: "set ?hs \<noteq> {}" by auto
    have "height (u_size E i) \<le> Max (set ?hs)" using i by (intro Max_ge) auto
    with i have "0 \<le> Max (set ?hs)" by linarith
    with ne show ?thesis by (simp add: max_def)
  qed
  with w h show ?thesis by simp
qed

lemma example_size_ab: "TextBox_u_size example_env (example_TextBox (js ''ab'')) = \<lparr>width = 14, height = 12\<rparr>"
  by (simp add: TextBox_u_size_def example_env_def example_TextBox_def new_TextBox_def TextBox.defs GraphicsBox.defs
     new_GraphicsBox_def js_def split_def newline_def u_text_line_def TextBox_infer_text_height_def is_math_like_def new_Set_def Set_add_def str_le_def scale_def Let_def)
lemma example_size_1: "TextBox_u_size example_env (example_TextBox (js ''1'')) = \<lparr>width = 7, height = 10\<rparr>"
  by (simp add: TextBox_u_size_def example_env_def example_TextBox_def new_TextBox_def TextBox.defs GraphicsBox.defs
     new_GraphicsBox_def js_def split_def newline_def u_text_line_def TextBox_infer_text_height_def is_math_like_def new_Set_def Set_add_def str_le_def scale_def Let_def)
lemma example_size_negative: "TextBox_u_size example_env ((example_TextBox (js ''ab''))\<lparr>box_height := Some (-1)\<rparr>) = \<lparr>width = 14, height = -12\<rparr>"
  by (simp add: TextBox_u_size_def example_env_def example_TextBox_def new_TextBox_def TextBox.defs GraphicsBox.defs
     new_GraphicsBox_def js_def split_def newline_def u_text_line_def TextBox_infer_text_height_def is_math_like_def new_Set_def Set_add_def str_le_def scale_def Let_def)

theorem Container_u_size_witness: "width (u_size example_env (Container new_GraphicsBox [Text (example_TextBox (js ''ab'')), Text (example_TextBox (js ''1''))])) = 21
  \<and> height (u_size example_env (Container new_GraphicsBox [Text (example_TextBox (js ''ab'')), Text (example_TextBox (js ''1''))])) = 12
  \<and> Max (set (map (\<lambda>i. height (u_size example_env i)) [Text (example_TextBox (js ''ab'')), Text (example_TextBox (js ''1''))])) = 12"
  using Container_u_size[of example_env new_GraphicsBox "[Text (example_TextBox (js ''ab'')), Text (example_TextBox (js ''1''))]"]
  by (simp add: example_size_ab example_size_1)

text \<open>
  C4 as stated fails for a container whose only item has a negative height (a text box
  with a height scale of \<open>-1\<close>): the container reports the height 0, the greatest
  height of an item is \<open>-12\<close>.
\<close>

theorem Container_u_size_counterexample: "height (u_size example_env (Container new_GraphicsBox [Text ((example_TextBox (js ''ab''))\<lparr>box_height := Some (-1)\<rparr>)])) = 0
  \<and> Max (set (map (\<lambda>i. height (u_size example_env i)) [Text ((example_TextBox (js ''ab''))\<lparr>box_height := Some (-1)\<rparr>)])) = -12"
  by (simp add: example_size_negative) 


section \<open>The visuals setter of a container\<close>

lemma text_s_TextBox_set_visuals: "text_s (TextBox_set_visuals E v tb) = text_s tb"
  by (simp add: TextBox_set_visuals_def Let_def)

lemma infer_text_height_set_visuals: "infer_text_height (set_visuals E v b) = infer_text_height b"
  by (induction b arbitrary: v) (simp_all add: text_s_TextBox_set_visuals Let_def)

lemma max_by_loop_mem: "max_by_loop best xs key \<in> set (best # xs)"
  by (induction xs arbitrary: best) auto

lemma max_by_loop_ge: "x \<in> set (best # xs) \<Longrightarrow> key x \<le> key (max_by_loop best xs key)"
proof (induction xs arbitrary: best x)
  case Nil
  then show ?case by simp
next
  case (Cons a xs)
  have mono: "key b \<le> key (max_by_loop b xs key)" for b
    using Cons.IH [of b b] by simp
  show ?case
  proof (cases "key a > key best")
    case True
    with Cons.prems Cons.IH [of x a] mono [of a] show ?thesis by auto
  next
    case False
    with Cons.prems Cons.IH [of x best] mono [of best] show ?thesis by auto
  qed
qed

lemma max_by_Some:
  "\<exists>m. max_by xs key = Some m \<and> m \<in> set xs \<and> (\<forall>x\<in>set xs. key x \<le> key m)" if "xs \<noteq> []"
proof (cases xs)
  case Nil
  with that show ?thesis by simp
next
  case (Cons a r)
  then show ?thesis
    using max_by_loop_mem [of a r key] max_by_loop_ge [of _ a r key]
    by (simp add: max_by_def del: max_by_loop.simps)
qed

lemma metric_of_set_text_height_metric:
  "text_height_metric (GraphicsBox_of (set_text_height_metric m b)) = m"
  by (cases b) (simp_all add: GraphicsBox.defs)

lemma metric_map_inj: "metric_map a = metric_map b \<Longrightarrow> a = b"
  by (cases a; cases b) simp_all

text \<open>
  C8. After the \<open>visuals\<close> setter of a \<open>GraphicsContainer\<close> with at least one item, every
  item has the same \<open>text_height_metric\<close>: a classification that \<open>infer_text_height\<close>
  returns for one of the items and whose rank, in the order
  \<open>x < cap < ascent < x_descent < cap_descent < ascent_descent\<close>, is the greatest among the
  items.
\<close>

theorem Container_visuals_common_metric:
  assumes "items \<noteq> []"
  shows "\<exists>items1 m. set_visuals E v (Container g items) = Container g items1
           \<and> length items1 = length items
           \<and> m \<in> set (map infer_text_height items)
           \<and> (\<forall>i\<in>set items. metric_map (infer_text_height i) \<le> metric_map m)
           \<and> (\<forall>m1\<in>set (map infer_text_height items).
                 (\<forall>i\<in>set items. metric_map (infer_text_height i) \<le> metric_map m1) \<longrightarrow> m1 = m)
           \<and> (\<forall>c\<in>set items1. text_height_metric (GraphicsBox_of c) = Some m)"
proof -
  let ?inferred = "map infer_text_height (map (set_visuals E v) items)"
  have same: "?inferred = map infer_text_height items"
    by (simp add: infer_text_height_set_visuals)
  from assms have "?inferred \<noteq> []" by simp
  from max_by_Some [OF this, of metric_map] obtain m where
    m: "max_by ?inferred metric_map = Some m" "m \<in> set ?inferred"
       "\<forall>x\<in>set ?inferred. metric_map x \<le> metric_map m"
    by blast
  let ?items1 = "map (set_text_height_metric (Some m)) (map (set_visuals E v) items)"
  have "set_visuals E v (Container g items) = Container g ?items1"
    using m(1) by (simp add: Let_def)
  moreover have "\<forall>c\<in>set ?items1. text_height_metric (GraphicsBox_of c) = Some m"
    by (auto simp: metric_of_set_text_height_metric)
  moreover have "m \<in> set (map infer_text_height items)"
    using m(2) same by simp
  moreover have "\<forall>i\<in>set items. metric_map (infer_text_height i) \<le> metric_map m"
    using m(3) same by simp
  moreover have "\<forall>m1\<in>set (map infer_text_height items).
      (\<forall>i\<in>set items. metric_map (infer_text_height i) \<le> metric_map m1) \<longrightarrow> m1 = m"
  proof (intro ballI impI)
    fix m1
    assume m1: "m1 \<in> set (map infer_text_height items)"
      and top: "\<forall>i\<in>set items. metric_map (infer_text_height i) \<le> metric_map m1"
    from m(2) same top have "metric_map m \<le> metric_map m1" by auto
    moreover from m1 m(3) same have "metric_map m1 \<le> metric_map m" by auto
    ultimately show "m1 = m" by (simp add: metric_map_inj)
  qed
  ultimately show ?thesis by (intro exI [of _ ?items1] exI [of _ m]) simp
qed



lemma example_infer:
  "infer_text_height (Text (example_TextBox (js ''1''))) = Cap"
  "infer_text_height (Text (example_TextBox (js ''ab''))) = Ascent_descent"
  by (simp_all add: TextBox_infer_text_height_def text_s_example_TextBox is_math_like_def
      new_Set_def Set_add_def str_le_def js_def newline_def)

theorem Container_visuals_common_metric_witness:
  "[Text (example_TextBox (js ''1'')), Text (example_TextBox (js ''ab''))] \<noteq> []
   \<and> map (\<lambda>c. text_height_metric (GraphicsBox_of c))
        (items_of (set_visuals example_env example_visuals
           (Container new_GraphicsBox [Text (example_TextBox (js ''1'')), Text (example_TextBox (js ''ab''))])))
      = [Some Ascent_descent, Some Ascent_descent]"
proof -
  let ?a = "Text (example_TextBox (js ''1''))" and ?b = "Text (example_TextBox (js ''ab''))"
  have ne: "[?a, ?b] \<noteq> []" by simp
  from Container_visuals_common_metric [OF ne, of example_env example_visuals new_GraphicsBox]
  obtain items1 m where r:
    "set_visuals example_env example_visuals (Container new_GraphicsBox [?a, ?b]) = Container new_GraphicsBox items1"
    "length items1 = length [?a, ?b]" "m \<in> set (map infer_text_height [?a, ?b])"
    "\<forall>i\<in>set [?a, ?b]. metric_map (infer_text_height i) \<le> metric_map m"
    "\<forall>m1\<in>set (map infer_text_height [?a, ?b]).
       (\<forall>i\<in>set [?a, ?b]. metric_map (infer_text_height i) \<le> metric_map m1) \<longrightarrow> m1 = m"
    "\<forall>c\<in>set items1. text_height_metric (GraphicsBox_of c) = Some m"
    by blast
  from r(3,4) have m: "m = Ascent_descent"
    by (auto simp: example_infer simp del: infer_text_height.simps)
  from r(2) obtain x y where xy: "items1 = [x, y]"
    by (cases items1; cases "tl items1") auto
  with r(1,6) m show ?thesis by simp
qed


section \<open>BaseExpo\<close>

lemma position_simps:
  "position (Text (tb\<lparr>u_position := p\<rparr>)) = p"
  "position (Image (ib\<lparr>u_position := p\<rparr>)) = p"
  "position (Expo (g\<lparr>u_position := p\<rparr>) b e) = p"
  "position (Container (g\<lparr>u_position := p\<rparr>) items) = p"
  by (simp_all add: position_def GraphicsBox.defs)

lemma set_position_completes:
  "positionable b \<Longrightarrow> \<exists>b1. set_position E b p = Inr b1 \<and> position b1 = p"
  "list_all positionable items \<Longrightarrow> n < length items \<Longrightarrow>
     \<exists>r. compute_items_positions E g items pos n = Inr r"
proof (induction E b p and E g items pos n rule: set_position_compute_items_positions.induct)
  case (1 E tb p)
  then show ?case by (simp add: position_simps)
next
  case (2 E ib p)
  then show ?case by (simp add: position_simps)
next
  case (3 E g b e p)
  then show ?case
    by (fastforce simp: Let_def position_simps)
next
  case (4 E g items p)
  then show ?case
    by (fastforce simp: Let_def position_simps)
next
  case (5 E g items pos n)
  from "5.prems" have pn: "positionable (items ! n)"
    by (simp add: list_all_length)
  show ?case
  proof (cases "n = 0")
    case True
    note n0 = this
    let ?ya = "case y_anchor pos of None \<Rightarrow> YName VCenter | Some a \<Rightarrow> a"
    let ?cs = "if ?ya = YName Top then height (u_size E (items ! n)) - height (u_size E (Container g items)) else 0"
    let ?p1 = "(u_position g)\<lparr>sx := sx (u_position g) - width (u_size E (items ! n))\<rparr>"
    let ?p2 = "pos\<lparr>sy := sy pos - ?cs, x_anchor := Some (XName Left), y_anchor := Some ?ya\<rparr>"
    from "5.prems" have nl: "\<not> length items \<le> n" by simp
    from "5.IH"(1) [OF nl refl refl refl refl refl n0 pn]
    obtain i1 where i1: "set_position E (items ! n) ?p1 = Inr i1" by blast
    from "5.IH"(2) [OF nl refl refl refl refl refl n0 i1 pn]
    obtain i2 where i2: "set_position E (items ! n) ?p2 = Inr i2" by blast
    show ?thesis
    proof (cases "Suc n < length items")
      case True
      from "5.IH"(3) [OF nl refl refl refl refl refl n0 i1 i2 True "5.prems"(1) True]
      obtain r where "compute_items_positions E g items pos (Suc n) = Inr r" by blast
      with nl n0 i1 i2 True show ?thesis
        by (subst compute_items_positions.simps)
          (simp add: Let_def del: compute_items_positions.simps u_size.simps split del: if_split cong: if_cong)
    next
      case False
      with nl n0 i1 i2 show ?thesis
        by (subst compute_items_positions.simps)
          (simp add: Let_def del: compute_items_positions.simps u_size.simps split del: if_split cong: if_cong)
    qed
  next
    case False
    note n0 = this
    let ?ya = "case y_anchor pos of None \<Rightarrow> YName VCenter | Some a \<Rightarrow> a"
    let ?cs = "if ?ya = YName Top then height (u_size E (items ! n)) - height (u_size E (Container g items)) else 0"
    let ?pos1 = "pos\<lparr>sx := sx pos + width (u_size E (items ! (n - 1)))\<rparr>"
    let ?p2 = "?pos1\<lparr>sy := sy pos - ?cs, x_anchor := Some (XName Left), y_anchor := Some ?ya\<rparr>"
    from "5.prems" have nl: "\<not> length items \<le> n" by simp
    from "5.IH"(4) [OF nl refl refl refl refl refl n0 refl pn]
    obtain i2 where i2: "set_position E (items ! n) ?p2 = Inr i2" by blast
    show ?thesis
    proof (cases "Suc n < length items")
      case True
      then have nn: "\<not> \<not> Suc n < length items" by simp
      from "5.IH"(5) [OF nl refl refl refl refl refl n0 refl i2 nn "5.prems"(1) True]
      obtain r where "compute_items_positions E g items ?pos1 (Suc n) = Inr r" by blast
      with nl n0 i2 True show ?thesis
        by (subst compute_items_positions.simps)
          (simp add: Let_def del: compute_items_positions.simps u_size.simps split del: if_split cong: if_cong)
    next
      case False
      with nl n0 i2 show ?thesis
        by (subst compute_items_positions.simps)
          (simp add: Let_def del: compute_items_positions.simps u_size.simps split del: if_split cong: if_cong)
    qed
  qed
qed

lemma u_shift_scale_font:
  "u_shift_scale E base =
     (case single_line_font base of
        Some f \<Rightarrow> x_height (font_metrics E f) / cap_height (font_metrics E f)
      | None \<Rightarrow> 2 / 3)"
  by (cases base) simp_all

text \<open>
  \<open>BaseExpo._size\<close>: with \<open>shift_scale\<close> the quotient of x-height and cap height of the
  base's font for a base that is a text box of one line and \<open>2/3\<close> otherwise, and
  \<open>shift = shift_scale * base.height\<close>, the width is \<open>base.width + expo.width\<close> and the
  height \<open>max(base.height, shift + expo.height)\<close>, the sizes of the children being those
  of \<open>size()\<close>. Base height 10, shift scale 0.6 and exponent height 8 give the height 14.
\<close>

lemma BaseExpo_u_size:
  "let bs = size_of E base;
       es = size_of E expo;
       shift_scale = (case single_line_font base of
                        Some f \<Rightarrow> x_height (font_metrics E f) / cap_height (font_metrics E f)
                      | None \<Rightarrow> 2 / 3);
       shift = shift_scale * height bs;
       h = max (height bs) (shift + height es)
   in u_shift_scale E base = shift_scale
      \<and> u_size E (Expo g base expo) = \<lparr>width = width bs + width es, height = h\<rparr>
      \<and> (height bs = 10 \<and> shift_scale = 0.6 \<and> height es = 8
           \<longrightarrow> height (u_size E (Expo g base expo)) = 14)"
  by (simp add: Let_def size_of_def u_shift_scale_font [symmetric])

text \<open>
  The position setter of a \<open>BaseExpo\<close> whose base and exponent hold no container without
  items completes, and places the base at \<open>sx = 0\<close> and \<open>sy\<close> the height above, anchored
  left and bottom, and the exponent at \<open>sx = base.width\<close>, \<open>sy = shift\<close>, anchored left
  and bottom.
\<close>

lemma BaseExpo_set_position:
  assumes "positionable base" and "positionable expo"
  shows "let bs = size_of E base;
             es = size_of E expo;
             shift = u_shift_scale E base * height bs;
             h = max (height bs) (shift + height es)
         in \<exists>b1 e1. set_position E (Expo g base expo) p = Inr (Expo (g\<lparr>u_position := p\<rparr>) b1 e1)
              \<and> position b1 = \<lparr>sx = 0, sy = h, x_anchor = Some (XName Left),
                                y_anchor = Some (YName Bottom)\<rparr>
              \<and> position e1 = \<lparr>sx = width bs, sy = shift, x_anchor = Some (XName Left),
                                y_anchor = Some (YName Bottom)\<rparr>"
proof -
  define bs where "bs = size_of E base"
  define es where "es = size_of E expo"
  define shift where "shift = u_shift_scale E base * height bs"
  define h where "h = max (height bs) (shift + height es)"
  let ?pb = "\<lparr>sx = 0, sy = h, x_anchor = Some (XName Left), y_anchor = Some (YName Bottom)\<rparr>"
  let ?pe = "\<lparr>sx = width bs, sy = shift, x_anchor = Some (XName Left), y_anchor = Some (YName Bottom)\<rparr>"
  from set_position_completes(1) [OF assms(1), of E ?pb]
  obtain b1 where b1: "set_position E base ?pb = Inr b1" "position b1 = ?pb" by blast
  from set_position_completes(1) [OF assms(2), of E ?pe]
  obtain e1 where e1: "set_position E expo ?pe = Inr e1" "position e1 = ?pe" by blast
  have "set_position E (Expo g base expo) p = Inr (Expo (g\<lparr>u_position := p\<rparr>) b1 e1)"
    using b1(1) e1(1) by (simp add: Let_def bs_def es_def shift_def h_def size_of_def)
  with b1(2) e1(2) have "\<exists>b1 e1. set_position E (Expo g base expo) p = Inr (Expo (g\<lparr>u_position := p\<rparr>) b1 e1)
      \<and> position b1 = ?pb \<and> position e1 = ?pe"
    by blast
  then show ?thesis
    unfolding Let_def bs_def [symmetric] es_def [symmetric] shift_def [symmetric] h_def [symmetric] .
qed

text \<open>The setter throws for every \<open>BaseExpo\<close> whose base is a container without items.\<close>

lemma set_position_empty_base:
  "set_position E (Expo g (Container h []) e) p = Inl TypeError"
  by (simp add: Let_def)

lemma example_size_2:
  "TextBox_u_size example_env (example_TextBox (js ''2'')) = \<lparr>width = 7, height = 10\<rparr>"
  by (simp add: TextBox_u_size_def example_env_def example_TextBox_def new_TextBox_def TextBox.defs GraphicsBox.defs
     new_GraphicsBox_def js_def split_def newline_def u_text_line_def TextBox_infer_text_height_def is_math_like_def new_Set_def Set_add_def str_le_def scale_def Let_def)

lemma example_size_2_small:
  "TextBox_u_size example_env ((example_TextBox (js ''2''))\<lparr>font := js ''8px sans''\<rparr>) = \<lparr>width = 7, height = 8\<rparr>"
  by (simp add: TextBox_u_size_def example_env_def example_TextBox_def new_TextBox_def TextBox.defs GraphicsBox.defs
     new_GraphicsBox_def js_def split_def newline_def u_text_line_def TextBox_infer_text_height_def is_math_like_def new_Set_def Set_add_def str_le_def scale_def Let_def)

lemma example_angle: "angle (Text ((example_TextBox t)\<lparr>font := f\<rparr>)) = None" "angle (Text (example_TextBox t)) = None"
  by (simp_all add: angle_def example_TextBox_def new_TextBox_def new_GraphicsBox_def TextBox.defs GraphicsBox.defs)

lemma example_single_line:
  "single_line_font (Text (example_TextBox (js ''1''))) = Some (js ''10px sans'')"
  by (simp add: nlines_def split_def text_s_new_TextBox newline_def example_TextBox_def js_def)

text \<open>
  C5 fails on the code. The position setter of a \<open>BaseExpo\<close> whose base is a container
  without items assigns the base's position through the setter of the container, which
  reads \<open>this.items[0]._size()\<close> and throws: the setter of the \<open>BaseExpo\<close> ends with a
  \<open>TypeError\<close> and the exponent is never positioned. The size is as C5 has it.
\<close>

theorem BaseExpo_position_empty_base:
  "set_position example_env
     (Expo new_GraphicsBox (new_GraphicsContainer []) (Text (example_TextBox (js ''2''))))
     \<lparr>sx = 0, sy = 0, x_anchor = None, y_anchor = None\<rparr> = Inl TypeError
   \<and> new_GraphicsContainer (parse_math_parts None (js ''x'')) = new_GraphicsContainer []
   \<and> u_size example_env
        (Expo new_GraphicsBox (new_GraphicsContainer []) (Text (example_TextBox (js ''2''))))
       = \<lparr>width = 0 + 7, height = max 0 (2 / 3 * 0 + 10)\<rparr>"
proof -
  have "angle (new_GraphicsContainer []) = None"
    by (simp add: angle_def new_GraphicsContainer_def new_GraphicsBox_def)
  moreover have "u_size example_env (new_GraphicsContainer []) = \<lparr>width = 0, height = 0\<rparr>"
    by (simp add: new_GraphicsContainer_def)
  moreover have "u_shift_scale example_env (new_GraphicsContainer []) = 2 / 3"
    by (simp add: new_GraphicsContainer_def)
  ultimately have "u_size example_env
        (Expo new_GraphicsBox (new_GraphicsContainer []) (Text (example_TextBox (js ''2''))))
       = \<lparr>width = 0 + 7, height = max 0 (2 / 3 * 0 + 10)\<rparr>"
    by (simp add: Let_def rotated_def example_size_2 example_angle)
  moreover have "set_position example_env
     (Expo new_GraphicsBox (new_GraphicsContainer []) (Text (example_TextBox (js ''2''))))
     \<lparr>sx = 0, sy = 0, x_anchor = None, y_anchor = None\<rparr> = Inl TypeError"
    unfolding new_GraphicsContainer_def by (rule set_position_empty_base)
  moreover have "new_GraphicsContainer (parse_math_parts None (js ''x'')) = new_GraphicsContainer []"
    by (simp add: parse_math_parts_def)
  ultimately show ?thesis by blast
qed

text \<open>A base \<open>1\<close> of height 10 with an exponent \<open>2\<close> of height 8, in the example font.\<close>

lemma BaseExpo_example:
  "u_size example_env (Expo new_GraphicsBox (Text (example_TextBox (js ''1'')))
      (Text ((example_TextBox (js ''2''))\<lparr>font := js ''8px sans''\<rparr>))) = \<lparr>width = 14, height = 14\<rparr>
   \<and> (\<exists>b1 e1. set_position example_env (Expo new_GraphicsBox (Text (example_TextBox (js ''1'')))
          (Text ((example_TextBox (js ''2''))\<lparr>font := js ''8px sans''\<rparr>)))
          \<lparr>sx = 3, sy = 4, x_anchor = None, y_anchor = None\<rparr>
            = Inr (Expo (new_GraphicsBox\<lparr>u_position := \<lparr>sx = 3, sy = 4, x_anchor = None, y_anchor = None\<rparr>\<rparr>) b1 e1)
        \<and> position b1 = \<lparr>sx = 0, sy = 14, x_anchor = Some (XName Left), y_anchor = Some (YName Bottom)\<rparr>
        \<and> position e1 = \<lparr>sx = 7, sy = 6, x_anchor = Some (XName Left), y_anchor = Some (YName Bottom)\<rparr>)"
proof -
  let ?b = "Text (example_TextBox (js ''1''))"
  let ?e = "Text ((example_TextBox (js ''2''))\<lparr>font := js ''8px sans''\<rparr>)"
  have pb: "positionable ?b" and pe: "positionable ?e" by simp_all
  have bs: "size_of example_env ?b = \<lparr>width = 7, height = 10\<rparr>"
    by (simp add: size_of_def example_angle rotated_def example_size_1)
  have es: "size_of example_env ?e = \<lparr>width = 7, height = 8\<rparr>"
    by (simp add: size_of_def example_angle rotated_def example_size_2_small)
  have sc: "u_shift_scale example_env ?b = 0.6"
    by (simp add: u_shift_scale_font example_single_line del: single_line_font.simps u_shift_scale.simps)
      (simp add: example_env_def js_def)
  have "u_size example_env (Expo new_GraphicsBox ?b ?e) = \<lparr>width = 7 + 7, height = max 10 (0.6 * 10 + 8)\<rparr>"
    using BaseExpo_u_size [of example_env ?b ?e new_GraphicsBox]
    unfolding Let_def bs es u_shift_scale_font [symmetric] sc Size.simps by blast
  moreover have "\<exists>b1 e1. set_position example_env (Expo new_GraphicsBox ?b ?e)
                \<lparr>sx = 3, sy = 4, x_anchor = None, y_anchor = None\<rparr>
              = Inr (Expo (new_GraphicsBox\<lparr>u_position := \<lparr>sx = 3, sy = 4, x_anchor = None, y_anchor = None\<rparr>\<rparr>) b1 e1)
            \<and> position b1 = \<lparr>sx = 0, sy = max 10 (0.6 * 10 + 8), x_anchor = Some (XName Left),
                               y_anchor = Some (YName Bottom)\<rparr>
            \<and> position e1 = \<lparr>sx = 7, sy = 0.6 * 10, x_anchor = Some (XName Left),
                               y_anchor = Some (YName Bottom)\<rparr>"
    using BaseExpo_set_position [OF pb pe, of example_env new_GraphicsBox
        "\<lparr>sx = 3, sy = 4, x_anchor = None, y_anchor = None\<rparr>"]
    unfolding Let_def bs es sc Size.simps by blast
  ultimately show ?thesis
    by (simp del: u_size.simps set_position.simps)
qed

section \<open>Parsing the text\<close>

text \<open>
  C3 (amended). For a text in which the provider finds no math span: when the
  provider's MathJax is present, the container built from \<open>parse_math_parts\<close> holds
  exactly one item, a \<open>TextBox\<close> of the original text, if the text is not empty, and no
  item if the text is empty (the trailing \<open>TextBox\<close> is pushed only if
  \<open>last_index < text.length\<close>); when the provider's MathJax is absent, the container
  holds no item, whatever the text (\<open>parse_math_parts\<close> returns at once).
\<close>

theorem parse_math_parts_no_spans:
  "(find_tex mj t = [] \<longrightarrow>
      new_GraphicsContainer (parse_math_parts (Some mj) t) =
        new_GraphicsContainer (if t = [] then [] else [Text (new_TextBox t)]))
   \<and> new_GraphicsContainer (parse_math_parts None t) = new_GraphicsContainer []"
  by (simp add: parse_math_parts_def slice_from_def)

theorem parse_math_parts_no_spans_witness:
  "find_tex example_MathJax (js ''E=1'') = []
   \<and> new_GraphicsContainer (parse_math_parts (Some example_MathJax) (js ''E=1''))
       = new_GraphicsContainer [Text (new_TextBox (js ''E=1''))]
   \<and> find_tex example_MathJax [] = []
   \<and> new_GraphicsContainer (parse_math_parts (Some example_MathJax) []) = new_GraphicsContainer []
   \<and> new_GraphicsContainer (parse_math_parts None (js ''E=1'')) = new_GraphicsContainer []"
proof -
  have a: "find_tex example_MathJax (js ''E=1'') = []" and b: "find_tex example_MathJax [] = []"
    by (simp_all add: example_MathJax_def js_def)
  have c: "js ''E=1'' \<noteq> []" by (simp add: js_def)
  from parse_math_parts_no_spans [of example_MathJax "js ''E=1''"]
    parse_math_parts_no_spans [of example_MathJax "[]"] a b c
  show ?thesis by simp
qed

text \<open>
  C3 as stated fails for the empty text, in which the provider finds no span, and for
  every text when the provider's MathJax is absent: the container has no item.
\<close>

theorem parse_math_parts_counterexample:
  "find_tex example_MathJax [] = []
   \<and> items_of (new_GraphicsContainer (parse_math_parts (Some example_MathJax) [])) = []
   \<and> items_of (new_GraphicsContainer (parse_math_parts None (js ''E=1''))) = []"
  by (simp add: example_MathJax_def js_def parse_math_parts_def new_GraphicsContainer_def)

text \<open>The text \<open>E=$mc^2$\<close> with the span \<open>mc^2\<close> gives a text box and an image box.\<close>

lemma parse_math_parts_example:
  "parse_math_parts (Some example_MathJax) (js ''E=$mc^2$'')
     = [Text (new_TextBox (js ''E='')), Image (new_ImageTextBox (js ''mc^2''))]"
  by (simp add: example_MathJax_def parse_math_parts_def slice_def slice_from_def Let_def js_def)


section \<open>The styled text of MathML\<close>

lemma text_s_example_ImageTextBox: "text_s (example_ImageTextBox t) = t"
  by (simp add: example_ImageTextBox_def new_ImageTextBox_def new_TextBox_def TextBox.defs
      GraphicsBox.defs ImageTextBox.defs)

lemma color_example_ImageTextBox: "color (example_ImageTextBox t) = js ''#ff0000''"
  by (simp add: example_ImageTextBox_def)


text \<open>
  On a \<open><math>\<close> tag without attributes the first regular expression matches up to the
  end of the next tag: the optional group \<open>(.*?[^?])\<close> is tried before it is skipped,
  and it matches \<open>><mi\<close>.
\<close>

lemma math_open_bare_tag: "match_from math_open (js ''<math><mi>x</mi></math>'') = Some (js ''<math><mi>'')"
  by (simp add: math_open_def js_def)

text \<open>
  C6 fails on the code. For the text \<open><math><mi>x</mi></math>\<close> and the colour
  \<open>#ff0000\<close>, \<open>styled_text\<close> inserts the opening \<open>mstyle\<close> tag after \<open><math><mi>\<close>, not
  after the opening \<open><math>\<close> tag; the closing tag is inserted before \<open></math>\<close>.
\<close>

theorem MathML_styled_text_bare_math_tag:
  "MathML_styled_text example_env (example_ImageTextBox (js ''<math><mi>x</mi></math>''))
     = js ''<math><mi><mstyle displaystyle=\"true\" mathcolor=\"#ff0000\">x</mi></mstyle></math>''"
  by (simp add: MathML_styled_text_def text_s_example_ImageTextBox color_example_ImageTextBox
      trim_def is_white_space_def math_open_def math_close_def insert_text_on_position_def
      indexOf_def js_def example_env_def Let_def)

text \<open>With an attribute in the \<open><math>\<close> tag the wrapper is inserted where C6 has it.\<close>

lemma MathML_styled_text_with_attributes:
  "MathML_styled_text example_env (example_ImageTextBox (js '' <math display=\"block\"><mi>x</mi></math> ''))
     = js ''<math display=\"block\"><mstyle displaystyle=\"true\" mathcolor=\"#ff0000\"><mi>x</mi></mstyle></math>''"
  by (simp add: MathML_styled_text_def text_s_example_ImageTextBox color_example_ImageTextBox
      trim_def is_white_space_def math_open_def math_close_def insert_text_on_position_def
      indexOf_def js_def example_env_def Let_def)

text \<open>Where one of the two patterns is absent, the result is the trimmed text.\<close>

lemma MathML_styled_text_pattern_absent:
  "match_from math_open (trim (text_s image_box)) = None \<Longrightarrow>
     MathML_styled_text E image_box = trim (text_s image_box)"
  "match_from math_open (trim (text_s image_box)) = Some m0 \<Longrightarrow>
   match_from math_close
     (insert_text_on_position (trim (text_s image_box))
        (indexOf (trim (text_s image_box)) m0 + int (length m0))
        (js ''<mstyle displaystyle=\"true\" mathcolor=\"'' @ color2hexrgb E (color image_box) @ js ''\">'')) = None \<Longrightarrow>
     MathML_styled_text E image_box = trim (text_s image_box)"
  by (simp_all add: MathML_styled_text_def Let_def)


section \<open>The object URLs\<close>

lemma load_image_cases:
  "(pending (fst (load_image E V i)) = pending V
      \<and> live_urls (fst (load_image E V i)) = live_urls V
      \<and> next_url (fst (load_image E V i)) = next_url V)
   \<or> (\<exists>svg. pending (fst (load_image E V i))
              = pending V @ [\<lparr>p_box = i, p_url = next_url V, p_svg = svg\<rparr>]
      \<and> live_urls (fst (load_image E V i)) = next_url V # live_urls V
      \<and> next_url (fst (load_image E V i)) = Suc (next_url V))"
  by (auto simp: load_image_def Let_def split: option.splits list.splits)

lemma load_image_revoked: "revoked_urls (fst (load_image E V i)) = revoked_urls V"
  by (auto simp: load_image_def Let_def split: option.splits list.splits)

lemma urls_accounted_load_image:
  assumes "urls_accounted V"
  shows "urls_accounted (fst (load_image E V i))"
  using load_image_cases [of E V i] assms
  by (fastforce simp: urls_accounted_def)

lemma urls_accounted_paint: "urls_accounted V \<Longrightarrow> urls_accounted (paint E V i)"
  by (simp add: paint_def urls_accounted_load_image split: option.splits)

lemma urls_accounted_foldl_load_image:
  "urls_accounted V \<Longrightarrow> urls_accounted (foldl (\<lambda>W i. fst (load_image E W i)) V xs)"
  by (induction xs arbitrary: V) (simp_all add: urls_accounted_load_image)

lemma urls_accounted_provider_ready:
  assumes "urls_accounted V"
  shows "urls_accounted (provider_ready E V st)"
proof -
  from assms have "urls_accounted (V\<lparr>provider_status := st\<rparr>)"
    by (simp add: urls_accounted_def)
  then show ?thesis
    unfolding provider_ready_def by (rule urls_accounted_foldl_load_image)
qed

lemma settle_urls:
  assumes "k < length (pending V)"
  shows "pending (fst (settle E V k outcome)) = take k (pending V) @ drop (Suc k) (pending V)"
    and "live_urls (fst (settle E V k outcome)) = removeAll (p_url (pending V ! k)) (live_urls V)"
    and "revoked_urls (fst (settle E V k outcome)) = revoked_urls V @ [p_url (pending V ! k)]"
    and "next_url (fst (settle E V k outcome)) = next_url V"
  using assms
  by (auto simp: settle_def Let_def split: decode.splits option.splits sum.splits)

lemma settle_out_of_range: "length (pending V) \<le> k \<Longrightarrow> fst (settle E V k outcome) = V"
  by (simp add: settle_def)

lemma distinct_remove_nth:
  assumes "distinct (map f xs)" and "k < length xs"
  shows "f ` set (take k xs @ drop (Suc k) xs) = f ` set xs - {f (xs ! k)}"
    and "distinct (map f (take k xs @ drop (Suc k) xs))"
proof -
  have xs: "xs = take k xs @ xs ! k # drop (Suc k) xs"
    using assms(2) by (simp add: id_take_nth_drop)
  from assms(1) have d: "distinct (map f (take k xs @ xs ! k # drop (Suc k) xs))"
    using xs by simp
  then have "f (xs ! k) \<notin> f ` set (take k xs @ drop (Suc k) xs)"
    by auto
  moreover have "f ` set xs = insert (f (xs ! k)) (f ` set (take k xs @ drop (Suc k) xs))"
    by (subst xs) auto
  ultimately show "f ` set (take k xs @ drop (Suc k) xs) = f ` set xs - {f (xs ! k)}"
    by auto
  from d show "distinct (map f (take k xs @ drop (Suc k) xs))"
    by auto
qed

lemma urls_accounted_settle:
  assumes "urls_accounted V"
  shows "urls_accounted (fst (settle E V k outcome))"
proof (cases "k < length (pending V)")
  case True
  from assms have d: "distinct (map p_url (pending V))"
    and l: "set (live_urls V) = p_url ` set (pending V)"
    and n: "\<forall>p\<in>set (pending V). p_url p < next_url V"
    by (simp_all add: urls_accounted_def)
  have "\<forall>p\<in>set (take k (pending V) @ drop (Suc k) (pending V)). p_url p < next_url V"
    using n by (auto dest: in_set_takeD in_set_dropD)
  then show ?thesis
    using distinct_remove_nth [OF d True] l
    by (simp add: urls_accounted_def settle_urls [OF True] del: set_append)
next
  case False
  then show ?thesis using assms by (simp add: settle_out_of_range)
qed

lemma urls_accounted_foldl_paint:
  "urls_accounted V \<Longrightarrow> urls_accounted (foldl (paint E) V xs)"
  by (induction xs arbitrary: V) (simp_all add: urls_accounted_paint)

lemma urls_accounted_Container_paint: "urls_accounted V \<Longrightarrow> urls_accounted (Container_paint E V)"
  by (simp add: Container_paint_def urls_accounted_foldl_paint)

lemma urls_accounted_step: "urls_accounted V \<Longrightarrow> urls_accounted (step E V e)"
  by (cases e)
    (simp_all add: urls_accounted_paint urls_accounted_load_image urls_accounted_settle
      urls_accounted_provider_ready urls_accounted_Container_paint)

lemma urls_accounted_run: "urls_accounted V \<Longrightarrow> urls_accounted (run E V es)"
  unfolding run_def by (induction es arbitrary: V) (simp_all add: urls_accounted_step)

lemma urls_accounted_new_view: "urls_accounted (new_view k t st mj items)"
  by (simp add: urls_accounted_def new_view_def)

text \<open>
  C9. In every state that the view reaches, a call of \<open>load_image\<close> that is suspended at
  the decoding holds an object URL that has not been revoked; when the decoding settles,
  with an image or with a rejection, the URL is revoked in that step, and the URLs that
  are not revoked are again exactly those of the calls still suspended.
\<close>

theorem blob_url_released:
  assumes "V = run E (new_view kd t st mj items) events" and "k < length (pending V)"
  shows "p_url (pending V ! k) \<in> set (live_urls V)
         \<and> p_url (pending V ! k) \<notin> set (live_urls (fst (settle E V k outcome)))
         \<and> p_url (pending V ! k) \<in> set (revoked_urls (fst (settle E V k outcome)))
         \<and> set (live_urls (fst (settle E V k outcome)))
             = p_url ` set (pending (fst (settle E V k outcome)))"
proof -
  from assms(1) have acc: "urls_accounted V"
    by (simp add: urls_accounted_run urls_accounted_new_view)
  then have "p_url (pending V ! k) \<in> set (live_urls V)"
    using assms(2) by (simp add: urls_accounted_def)
  moreover from urls_accounted_settle [OF acc, of E k outcome]
  have "set (live_urls (fst (settle E V k outcome))) = p_url ` set (pending (fst (settle E V k outcome)))"
    by (simp add: urls_accounted_def)
  moreover have "p_url (pending V ! k) \<notin> set (live_urls (fst (settle E V k outcome)))"
    by (simp add: settle_urls(2) [OF assms(2)])
  moreover have "p_url (pending V ! k) \<in> set (revoked_urls (fst (settle E V k outcome)))"
    by (simp add: settle_urls(3) [OF assms(2)])
  ultimately show ?thesis
    by blast
qed


section \<open>Painting an image box without image\<close>

lemma image_example_ImageTextBox: "image (example_ImageTextBox t) = None"
  by (simp add: example_ImageTextBox_def new_ImageTextBox_def ImageTextBox.defs TextBox.defs)

lemma example_view_fields:
  "kind (example_view st mj) = TeXView"
  "provider_status (example_view st mj) = st"
  "provider_MathJax (example_view st mj) = mj"
  "u_has_finished (example_view st mj) = False"
  "pending (example_view st mj) = []"
  "next_url (example_view st mj) = 0"
  "live_urls (example_view st mj) = []"
  "revoked_urls (example_view st mj) = []"
  "notified (example_view st mj) = 0"
  "ready_connections (example_view st mj) = []"
  "items_of (graphics_container (example_view st mj)) = [Image (example_ImageTextBox (js ''x''))]"
  by (simp_all add: example_view_def new_view_def new_GraphicsContainer_def)

lemma example_view_box: "image_box_at (example_view st mj) 0 = Some (example_ImageTextBox (js ''x''))"
  by (simp add: image_box_at_def example_view_fields)

lemma in_set_map_filter: "x \<in> set xs \<Longrightarrow> f x = Some y \<Longrightarrow> y \<in> set (List.map_filter f xs)"
  by (force simp: List.map_filter_def image_iff)

lemma without_image_not_loaded:
  assumes "image_box_at V i = Some ib" and "image ib = None"
  shows "\<not> has_images_loaded V"
proof -
  from assms(1) have "i < length (items_of (graphics_container V))"
    and "image_of (items_of (graphics_container V) ! i) = Some ib"
    by (simp_all add: image_box_at_def split: if_splits)
  then have "ib \<in> set (List.map_filter image_of (items_of (graphics_container V)))"
    by (auto intro: in_set_map_filter nth_mem)
  with assms(2) show ?thesis
    by (auto simp: has_images_loaded_def list_all_iff)
qed

lemma load_image_keeps:
  "graphics_container (fst (load_image E V i)) = graphics_container V"
  "provider_status (fst (load_image E V i)) = provider_status V"
  "provider_MathJax (fst (load_image E V i)) = provider_MathJax V"
  "kind (fst (load_image E V i)) = kind V"
  "model_text (fst (load_image E V i)) = model_text V"
  "model_inline (fst (load_image E V i)) = model_inline V"
  "model_macros (fst (load_image E V i)) = model_macros V"
  by (auto simp: load_image_def Let_def split: option.splits list.splits)

lemma load_image_keeps_box: "image_box_at (fst (load_image E V i)) j = image_box_at V j"
  by (simp add: image_box_at_def load_image_keeps)

lemma load_image_keeps_loaded: "has_images_loaded (fst (load_image E V i)) = has_images_loaded V"
  by (simp add: has_images_loaded_def load_image_keeps)

lemma load_image_keeps_process_text:
  "u_process_text E (fst (load_image E V i)) ib = u_process_text E V ib"
  by (simp add: u_process_text_def styled_text_def load_image_keeps
      cong: view_kind.case_cong option.case_cong)

lemma load_image_not_ready:
  assumes "\<not> has_images_loaded V" and "provider_status V = NotStarted \<or> provider_status V = Loading"
  shows "fst (load_image E V i) = V\<lparr>ready_connections := ready_connections V @ [i], u_has_finished := False\<rparr>"
  using assms by (simp add: load_image_def)

lemma load_image_converts:
  assumes "image_box_at V i = Some ib" and "image ib = None" and "provider_status V = Ready"
    and "u_process_text E V ib = Some el" and "children el = svg # others"
  shows "fst (load_image E V i) =
           V\<lparr>next_url := Suc (next_url V), live_urls := next_url V # live_urls V,
             pending := pending V @ [\<lparr>p_box = i, p_url = next_url V, p_svg = svg\<rparr>]\<rparr>"
  using assms without_image_not_loaded [OF assms(1,2)]
  by (simp add: load_image_def Let_def)

lemma paint_without_image_eq:
  "image_box_at V i = Some ib \<Longrightarrow> image ib = None \<Longrightarrow> paint E V i = fst (load_image E V i)"
  by (simp add: paint_def)

lemma in_flight_load_image_le: "in_flight (fst (load_image E V i)) j \<le> Suc (in_flight V j)"
  using load_image_cases [of E V i] by (auto simp: in_flight_def)

lemma paints_in_flight:
  assumes "image_box_at V i = Some ib" and "image ib = None" and "provider_status V = Ready"
    and "u_process_text E V ib = Some el" and "children el = svg # others"
  shows "in_flight (((\<lambda>W. paint E W i) ^^ n) V) i = in_flight V i + n
         \<and> image_box_at (((\<lambda>W. paint E W i) ^^ n) V) i = Some ib
         \<and> provider_status (((\<lambda>W. paint E W i) ^^ n) V) = Ready
         \<and> u_process_text E (((\<lambda>W. paint E W i) ^^ n) V) ib = Some el"
proof (induction n)
  case 0
  from assms show ?case by simp
next
  case (Suc n)
  let ?W = "((\<lambda>W. paint E W i) ^^ n) V"
  from Suc have W: "image_box_at ?W i = Some ib" "provider_status ?W = Ready"
    "u_process_text E ?W ib = Some el" "in_flight ?W i = in_flight V i + n"
    by simp_all
  have p: "paint E ?W i = fst (load_image E ?W i)"
    using W(1) assms(2) by (rule paint_without_image_eq)
  have "in_flight (fst (load_image E ?W i)) i = Suc (in_flight ?W i)"
    by (simp add: load_image_converts [OF W(1) assms(2) W(2) W(3) assms(5)] in_flight_def)
  with W p show ?case
    by (simp add: load_image_keeps_box load_image_keeps load_image_keeps_process_text)
qed

text \<open>
  C1 (amended). For an \<open>ImageTextBox\<close> whose image is null, \<open>paint\<close> calls \<open>load_image\<close>
  once, and a call starts at most one conversion. While the provider's status is
  \<open>not_started\<close> or \<open>loading\<close>, the call starts no conversion: it connects a retry to the
  provider's \<open>ready\<close> signal. With a ready provider whose conversion yields an element
  with an SVG child, every call of \<open>paint\<close> before the load resolves starts one more
  conversion of the box: after \<open>n\<close> calls, \<open>n\<close> more are in flight, and the image is
  still null.
\<close>

theorem paint_without_image:
  assumes "image_box_at V i = Some ib" and "image ib = None"
  shows "(provider_status V = NotStarted \<or> provider_status V = Loading \<longrightarrow>
            pending (paint E V i) = pending V
            \<and> ready_connections (paint E V i) = ready_connections V @ [i])
         \<and> in_flight (paint E V i) i \<le> Suc (in_flight V i)
         \<and> (provider_status V = Ready
              \<and> (\<exists>el svg others. u_process_text E V ib = Some el \<and> children el = svg # others) \<longrightarrow>
            (\<forall>n. in_flight (((\<lambda>W. paint E W i) ^^ n) V) i = in_flight V i + n
                 \<and> image_box_at (((\<lambda>W. paint E W i) ^^ n) V) i = Some ib))"
proof -
  note p = paint_without_image_eq [OF assms, of E]
  have "pending (paint E V i) = pending V
        \<and> ready_connections (paint E V i) = ready_connections V @ [i]"
    if "provider_status V = NotStarted \<or> provider_status V = Loading"
    using load_image_not_ready [OF without_image_not_loaded [OF assms] that, of E i] p by simp
  moreover have "in_flight (paint E V i) i \<le> Suc (in_flight V i)"
    using in_flight_load_image_le [of E V i i] p by simp
  moreover have "\<forall>n. in_flight (((\<lambda>W. paint E W i) ^^ n) V) i = in_flight V i + n
                 \<and> image_box_at (((\<lambda>W. paint E W i) ^^ n) V) i = Some ib"
    if "provider_status V = Ready"
      and "\<exists>el svg others. u_process_text E V ib = Some el \<and> children el = svg # others"
  proof -
    from that(2) obtain el svg others where "u_process_text E V ib = Some el" "children el = svg # others"
      by blast
    from paints_in_flight [OF assms that(1) this] show ?thesis by blast
  qed
  ultimately show ?thesis by blast
qed


section \<open>Runs of the example views\<close>

lemma example_process_text:
  "u_process_text example_env (example_view st (Some example_MathJax)) (example_ImageTextBox (js ''x''))
     = Some \<lparr>children = [example_svg]\<rparr>"
  by (simp add: u_process_text_def example_view_fields example_MathJax_def)

lemma process_text_without_MathJax: "provider_MathJax V = None \<Longrightarrow> u_process_text E V ib = None"
  by (simp add: u_process_text_def split: view_kind.splits)

lemma process_text_Ascii: "kind V = AsciiView \<Longrightarrow> u_process_text E V ib = None"
  by (simp add: u_process_text_def)

text \<open>
  C1 as stated fails: with a ready provider, two calls of \<open>paint\<close> on an image box
  without image, before any decoding settles, leave two conversions of that box in
  flight. No flag marks a box whose conversion has started.
\<close>

theorem paint_twice_counterexample:
  "image_box_at (example_view Ready (Some example_MathJax)) 0 = Some (example_ImageTextBox (js ''x''))
   \<and> image (example_ImageTextBox (js ''x'')) = None
   \<and> in_flight (example_view Ready (Some example_MathJax)) 0 = 0
   \<and> in_flight (paint example_env (paint example_env (example_view Ready (Some example_MathJax)) 0) 0) 0 = 2
   \<and> image_box_at (paint example_env (paint example_env (example_view Ready (Some example_MathJax)) 0) 0) 0
       = Some (example_ImageTextBox (js ''x''))"
proof -
  let ?V = "example_view Ready (Some example_MathJax)"
  have two: "((\<lambda>W. paint example_env W 0) ^^ 2) ?V = paint example_env (paint example_env ?V 0) 0"
    by (simp add: numeral_2_eq_2)
  have "children \<lparr>children = [example_svg]\<rparr> = example_svg # []" by simp
  from paints_in_flight [OF example_view_box image_example_ImageTextBox _ example_process_text this, of Ready 2]
  show ?thesis
    by (simp add: two example_view_fields example_view_box image_example_ImageTextBox in_flight_def)
qed

theorem paint_without_image_witness:
  "image_box_at (example_view Loading None) 0 = Some (example_ImageTextBox (js ''x''))
   \<and> image (example_ImageTextBox (js ''x'')) = None
   \<and> pending (paint example_env (example_view Loading None) 0) = []
   \<and> ready_connections (paint example_env (example_view Loading None) 0) = [0]
   \<and> in_flight (((\<lambda>W. paint example_env W 0) ^^ 3) (example_view Ready (Some example_MathJax))) 0 = 3"
proof -
  have c: "\<exists>el svg others. u_process_text example_env (example_view Ready (Some example_MathJax))
             (example_ImageTextBox (js ''x'')) = Some el \<and> children el = svg # others"
    by (simp add: example_process_text)
  from paint_without_image [OF example_view_box image_example_ImageTextBox, of Loading None example_env]
    paint_without_image [OF example_view_box image_example_ImageTextBox, of Ready "Some example_MathJax" example_env]
    c
  show ?thesis
    by (simp add: example_view_fields example_view_box image_example_ImageTextBox in_flight_def)
qed

text \<open>
  At the level of the function: for a failed provider and a conversion that yields
  nothing, every call of \<open>load_image\<close> calls \<open>notify_finished_after_paint\<close>, the first in
  the branch guarded by \<open>!this._has_finished\<close>, the later ones after \<open>_process_text\<close> has
  returned nothing.
\<close>

lemma failed_provider_load_image:
  assumes "provider_status V = Failed" and "image_box_at V i = Some ib" and "u_process_text E V ib = None"
  shows "notified (fst (load_image E V i)) = Suc (notified V)"
    and "u_has_finished (fst (load_image E V i))"
    and "pending (fst (load_image E V i)) = pending V"
  using assms by (simp_all add: load_image_def)

lemma failed_provider_notifies_each_call:
  assumes "provider_status V = Failed" and "image_box_at V i = Some ib" and "u_process_text E V ib = None"
  shows "notified (run E V (replicate n (LoadImage i))) = notified V + n
         \<and> pending (run E V (replicate n (LoadImage i))) = pending V
         \<and> graphics_container (run E V (replicate n (LoadImage i))) = graphics_container V"
  using assms
proof (induction n arbitrary: V)
  case 0
  then show ?case by (simp add: run_def)
next
  case (Suc n)
  let ?W = "fst (load_image E V i)"
  have W: "provider_status ?W = Failed" "image_box_at ?W i = Some ib" "u_process_text E ?W ib = None"
    using Suc.prems by (simp_all add: load_image_keeps load_image_keeps_box load_image_keeps_process_text)
  have "run E V (replicate (Suc n) (LoadImage i)) = run E ?W (replicate n (LoadImage i))"
    by (simp add: run_def)
  with Suc.IH [OF W] failed_provider_load_image [OF Suc.prems] show ?case
    by (simp add: load_image_keeps)
qed





theorem blob_url_released_witness:
  "pending (run example_env (example_view Ready (Some example_MathJax)) [Paint 0])
     = [\<lparr>p_box = 0, p_url = 0, p_svg = example_svg\<rparr>]
   \<and> live_urls (run example_env (example_view Ready (Some example_MathJax)) [Paint 0]) = [0]
   \<and> live_urls (fst (settle example_env
        (run example_env (example_view Ready (Some example_MathJax)) [Paint 0]) 0 Rejected)) = []
   \<and> revoked_urls (fst (settle example_env
        (run example_env (example_view Ready (Some example_MathJax)) [Paint 0]) 0 Rejected)) = [0]
   \<and> live_urls (fst (settle example_env
        (run example_env (example_view Ready (Some example_MathJax)) [Paint 0]) 0 (Decoded 7))) = []
   \<and> revoked_urls (fst (settle example_env
        (run example_env (example_view Ready (Some example_MathJax)) [Paint 0]) 0 (Decoded 7))) = [0]"
proof -
  let ?init = "example_view Ready (Some example_MathJax)"
  let ?after = "run example_env ?init [Paint 0]"
  have "children \<lparr>children = [example_svg]\<rparr> = example_svg # []" by simp
  moreover have "provider_status ?init = Ready" by (simp add: example_view_fields)
  ultimately have conv: "fst (load_image example_env ?init 0) =
      ?init\<lparr>next_url := Suc (next_url ?init), live_urls := next_url ?init # live_urls ?init,
          pending := pending ?init @ [\<lparr>p_box = 0, p_url = next_url ?init, p_svg = example_svg\<rparr>]\<rparr>"
    using load_image_converts [OF example_view_box image_example_ImageTextBox _ example_process_text]
    by blast
  have first: "?after = fst (load_image example_env ?init 0)"
    by (simp add: run_def paint_def example_view_box image_example_ImageTextBox)
  have pend: "pending ?after = [\<lparr>p_box = 0, p_url = 0, p_svg = example_svg\<rparr>]"
    and live: "live_urls ?after = [0]" and rev: "revoked_urls ?after = []"
    by (simp_all only: first conv) (simp_all add: example_view_fields)
  have r: "?after = run example_env
               (new_view TeXView (js ''$x$'') Ready (Some example_MathJax) [Image (example_ImageTextBox (js ''x''))])
               [Paint 0]"
    by (simp only: example_view_def)
  have len: "0 < length (pending ?after)" by (simp only: pend) simp
  note s = settle_urls(2,3) [OF len, of example_env]
  from blob_url_released [OF r len, of Rejected] blob_url_released [OF r len, of "Decoded 7"]
  show ?thesis
    unfolding s pend live rev by simp
qed


end
